theory Spec2Isabelle
  imports Complex_Main "HOL-Library.AList"
begin

section \<open>Python values, exceptions and library functions\<close>

text \<open>
  The data manager of the metro emulator (\<^verbatim>\<open>dataMgr.py\<close>) is embedded function by
  function. Python exceptions are values of \<open>pyerr\<close>; a function that can raise while it
  has already mutated \<^verbatim>\<open>self\<close> returns the mutated state together with the exception.
  Python floats (clock readings, voltages, currents) are idealised as real numbers, and a
  Python \<^verbatim>\<open>str\<close> as a \<open>string\<close>.
\<close>

datatype pyerr =
  KeyError | TypeError | ValueError | AttributeError | JSONDecodeError | UnicodeDecodeError

datatype pyval =
  PNone | PBool bool | PNum real | PStr string | PList "pyval list"
  | PDict "(string \<times> pyval) list"

text \<open>Python's truth value of an object (\<^verbatim>\<open>bool(x)\<close>, \<^verbatim>\<open>if x\<close>, \<^verbatim>\<open>x or y\<close>).\<close>

fun truthy :: "pyval \<Rightarrow> bool" where
  "truthy PNone = False"
| "truthy (PBool b) = b"
| "truthy (PNum r) = (r \<noteq> 0)"
| "truthy (PStr s) = (s \<noteq> [])"
| "truthy (PList xs) = (xs \<noteq> [])"
| "truthy (PDict d) = (d \<noteq> [])"

text \<open>\<^verbatim>\<open>d.get(key, default)\<close> on a dictionary kept as an association list.\<close>

definition dict_get :: "(string \<times> pyval) list \<Rightarrow> string \<Rightarrow> pyval \<Rightarrow> pyval" where
  "dict_get d k dflt = (case map_of d k of None \<Rightarrow> dflt | Some v \<Rightarrow> v)"

text \<open>
  The module's globals (\<^verbatim>\<open>gv.gTestMD\<close>, \<^verbatim>\<open>gv.gJuncAvoid\<close>, \<^verbatim>\<open>gv.gPlcTimeout\<close>, declared in
  \<^verbatim>\<open>metroEmuGobal\<close>) and the Python library functions the module calls are parameters:
  \<^verbatim>\<open>json.loads\<close> (\<open>None\<close> when it raises), \<^verbatim>\<open>json.dumps\<close>, \<^verbatim>\<open>bytes.decode('UTF-8')\<close>
  (\<open>None\<close> when it raises), \<^verbatim>\<open>float\<close> on a string (\<open>None\<close> when it raises) and
  \<^verbatim>\<open>time.strftime("%H:%M:%S", time.localtime(t))\<close>.
\<close>

record env =
  gTestMD :: bool
  gJuncAvoid :: bool
  gPlcTimeout :: real
  json_loads :: "string \<Rightarrow> pyval option"
  json_dumps :: "pyval \<Rightarrow> string"
  utf8_decode :: "string \<Rightarrow> string option"
  str_to_float :: "string \<Rightarrow> real option"
  clock_str :: "real \<Rightarrow> string"

section \<open>Message codec\<close>

text \<open>\<^verbatim>\<open>str.isspace\<close> on the characters a \<open>char\<close> can hold, and \<^verbatim>\<open>str.strip()\<close>.\<close>

definition py_isspace :: "char \<Rightarrow> bool" where
  "py_isspace c = ((of_char c :: nat) \<in> set [9, 10, 11, 12, 13, 28, 29, 30, 31, 32, 133, 160])"

definition py_strip :: "string \<Rightarrow> string" where
  "py_strip s = rev (dropWhile py_isspace (rev (dropWhile py_isspace s)))"

text \<open>\<^verbatim>\<open>s.split(sep, maxsplit)\<close> for a one-character separator.\<close>

fun py_split :: "char \<Rightarrow> nat \<Rightarrow> string \<Rightarrow> string list" where
  "py_split c 0 s = [s]"
| "py_split c (Suc n) s =
     (if c \<in> set s
      then takeWhile (\<lambda>x. x \<noteq> c) s # py_split c n (tl (dropWhile (\<lambda>x. x \<noteq> c) s))
      else [s])"

text \<open>An incoming datagram is handed to the handler as \<^verbatim>\<open>bytes\<close> or as \<^verbatim>\<open>str\<close>.\<close>

datatype msg = MStr string | MBytes string

text \<open>
  \<^verbatim>\<open>parseIncomeMsg\<close>: the decoding of a \<^verbatim>\<open>bytes\<close> message sits before the
  \<^verbatim>\<open>try\<close>, so its exception leaves the function; the unpacking into three names
  raises inside the \<^verbatim>\<open>try\<close> unless the split gives exactly three parts, and the
  handler returns \<^verbatim>\<open>('', '', json.dumps({}))\<close>, whose last component is the text \<^verbatim>\<open>{}\<close>.
\<close>

definition parseIncomeMsg :: "env \<Rightarrow> msg \<Rightarrow> pyerr + (string \<times> string \<times> string)" where
  "parseIncomeMsg ev m =
     (case (case m of MStr s \<Rightarrow> Some s | MBytes b \<Rightarrow> utf8_decode ev b) of
        None \<Rightarrow> Inl UnicodeDecodeError
      | Some req \<Rightarrow>
          (case py_split (CHR '';'') 2 req of
             [reqKey, reqType, reqJsonStr] \<Rightarrow> Inr (py_strip reqKey, py_strip reqType, reqJsonStr)
           | _ \<Rightarrow> Inr ('''', '''', ''{}'')))"

section \<open>The simulation engine\<close>

text \<open>
  Modelled from the spec: the simulation engine \<^verbatim>\<open>gv.iMapMgr\<close> (the map manager, whose
  class is not part of the sources). A train agent reports its power state and its
  real-time information (a dictionary, or \<^verbatim>\<open>None\<close>), and records every \<^verbatim>\<open>setEmgStop\<close>
  call it accepted, oldest first; an unreachable train raises on \<^verbatim>\<open>setEmgStop\<close>. The
  engine gives the sensor states, the stations' dock states and the trains of a line
  (\<^verbatim>\<open>getTrains\<close> may give \<^verbatim>\<open>None\<close>), and records the calls of its three setters.
\<close>

record train =
  powerState :: int
  realInfo :: "(string \<times> pyval) list option"
  emgStopCalls :: "bool list"
  emgStopRaises :: bool

record mapmgr =
  sensorsState :: "string \<Rightarrow> int list"
  stationsDock :: "string \<Rightarrow> bool list"
  trainsOn :: "string \<Rightarrow> train list option"
  signalCalls :: "(string \<times> pyval) list"
  stationSignalCalls :: "(string \<times> pyval) list"
  trainsPowerCalls :: "(string \<times> pyval) list"

section \<open>State of the data manager\<close>

text \<open>
  The fields of \<^verbatim>\<open>DataManager\<close> that the handlers read and write, with the global
  \<^verbatim>\<open>gv.iMapMgr\<close> (\<open>None\<close> while the engine is not constructed). A dictionary is an
  association list in insertion order; \<^verbatim>\<open>d[k] = v\<close> is \<open>AList.update k v d\<close>.
\<close>

record hub =
  sensorsDict :: "(string \<times> int list option) list"
  sensorPlcUpdateT :: real
  stationsDict :: "(string \<times> int list option) list"
  stationPlcUpdateT :: real
  trainsDict :: "(string \<times> int list option) list"
  trainPlcUpdateT :: real
  trainsRtuDict :: "(string \<times> pyval list list option) list"
  trainRtuUpdateT :: real
  last_powerlink_railway :: "bool option"
  iMapMgr :: "mapmgr option"

definition line_ids :: "string list" where
  "line_ids = [''weline'', ''nsline'', ''ccline'', ''mtline'']"

text \<open>\<^verbatim>\<open>DataManager.__init__\<close>, before any engine exists.\<close>

definition init_hub :: hub where
  "init_hub =
     \<lparr> sensorsDict = [(''weline'', None), (''nsline'', None), (''ccline'', None), (''mtline'', None)],
       sensorPlcUpdateT = 0,
       stationsDict = [(''weline'', None), (''nsline'', None), (''ccline'', None), (''mtline'', None)],
       stationPlcUpdateT = 0,
       trainsDict = [(''weline'', None), (''nsline'', None), (''ccline'', None), (''mtline'', None)],
       trainPlcUpdateT = 0,
       trainsRtuDict = [(''weline'', None), (''nsline'', None), (''ccline'', None), (''mtline'', None)],
       trainRtuUpdateT = 0,
       last_powerlink_railway = None,
       iMapMgr = None \<rparr>"

definition priorityConfig :: "(string \<times> nat list) option list" where
  "priorityConfig =
     [Some (''nsline'', [0]), None, Some (''nsline'', [4]), None,
      Some (''nsline'', [2]), None, Some (''nsline'', [2]), None,
      Some (''weline'', [7, 9]), None, Some (''weline'', [5, 11]), None,
      Some (''weline'', [3, 13]), None, Some (''weline'', [1, 15]), None]"

section \<open>Power-link fan-out\<close>

text \<open>
  The inner loop of \<^verbatim>\<open>_applyRailwayPowerLink\<close> over the trains of one line: the first
  train whose \<^verbatim>\<open>setEmgStop\<close> raises ends the loop, since the \<^verbatim>\<open>try\<close> encloses the
  whole loop.
\<close>

definition setEmgStop :: "bool \<Rightarrow> train \<Rightarrow> train" where
  "setEmgStop flag t = t\<lparr>emgStopCalls := emgStopCalls t @ [flag]\<rparr>"

fun emg_loop :: "bool \<Rightarrow> train list \<Rightarrow> train list" where
  "emg_loop flag [] = []"
| "emg_loop flag (t # ts) =
     (if emgStopRaises t then t # ts else setEmgStop flag t # emg_loop flag ts)"

definition emg_line :: "bool \<Rightarrow> string \<Rightarrow> mapmgr \<Rightarrow> mapmgr" where
  "emg_line flag line_id m =
     (case trainsOn m line_id of
        None \<Rightarrow> m
      | Some ts \<Rightarrow> m\<lparr>trainsOn := (trainsOn m)(line_id := Some (emg_loop flag ts))\<rparr>)"

definition applyRailwayPowerLink :: "bool \<Rightarrow> hub \<Rightarrow> hub" where
  "applyRailwayPowerLink railway_on s =
     (case iMapMgr s of
        None \<Rightarrow> s
      | Some m \<Rightarrow> s\<lparr>iMapMgr := Some (fold (emg_line (\<not> railway_on)) line_ids m)\<rparr>)"

section \<open>Refreshing the snapshot tables\<close>

text \<open>
  The loop \<^verbatim>\<open>for key in self.xDict.keys(): self.xDict[key] = ...\<close> shared by the four
  update functions: \<open>f key\<close> is the value the body leaves under \<open>key\<close> and the exception
  it raises, if any, which ends the loop.
\<close>

fun refresh_loop ::
  "(string \<Rightarrow> 'v \<times> pyerr option) \<Rightarrow> string list \<Rightarrow> (string \<times> 'v) list
     \<Rightarrow> (string \<times> 'v) list \<times> pyerr option" where
  "refresh_loop f [] d = (d, None)"
| "refresh_loop f (key # keys) d =
     (case f key of
        (v, Some err) \<Rightarrow> (AList.update key v d, Some err)
      | (v, None) \<Rightarrow> refresh_loop f keys (AList.update key v d))"

text \<open>
  \<^verbatim>\<open>self.sensorsDict[key]\<close> used as a sequence (\<^verbatim>\<open>len\<close>, indexing): a missing key
  raises KeyError, the value \<^verbatim>\<open>None\<close> raises TypeError.
\<close>

definition seq_of :: "(string \<times> int list option) list \<Rightarrow> string \<Rightarrow> pyerr + int list" where
  "seq_of d key =
     (case map_of d key of
        None \<Rightarrow> Inl KeyError
      | Some None \<Rightarrow> Inl TypeError
      | Some (Some xs) \<Rightarrow> Inr xs)"

text \<open>The loop \<^verbatim>\<open>for j in idxs\<close> of \<^verbatim>\<open>_updateSensorPriority\<close>.\<close>

fun overWrite ::
  "(string \<times> int list option) list \<Rightarrow> string \<Rightarrow> nat list \<Rightarrow> bool \<Rightarrow> pyerr + bool" where
  "overWrite d key [] flg = Inr flg"
| "overWrite d key (j # js) flg =
     (case seq_of d key of
        Inl e \<Rightarrow> Inl e
      | Inr xs \<Rightarrow> overWrite d key js (if j < length xs then flg \<or> xs ! j \<noteq> 0 else flg))"

text \<open>
  The loop \<^verbatim>\<open>for i, val in enumerate(self.sensorsDict['ccline'])\<close>: the list iterator
  reads the live list, so \<open>val\<close> is the current value at \<open>i\<close>.
\<close>

fun priority_loop ::
  "nat list \<Rightarrow> (string \<times> int list option) list
     \<Rightarrow> (string \<times> int list option) list \<times> pyerr option" where
  "priority_loop [] d = (d, None)"
| "priority_loop (i # is) d =
     (case seq_of d ''ccline'' of
        Inl e \<Rightarrow> (d, Some e)
      | Inr cc \<Rightarrow>
          (if i < length priorityConfig then
             (case priorityConfig ! i of
                None \<Rightarrow> priority_loop is d
              | Some (key, idxs) \<Rightarrow>
                  (case overWrite d key idxs False of
                     Inl e \<Rightarrow> (d, Some e)
                   | Inr flg \<Rightarrow>
                       (if cc ! i \<noteq> 0 \<and> flg
                        then priority_loop is (AList.update ''ccline'' (Some (cc[i := 0])) d)
                        else priority_loop is d)))
           else priority_loop is d))"

definition updateSensorPriority ::
  "(string \<times> int list option) list \<Rightarrow> (string \<times> int list option) list \<times> pyerr option" where
  "updateSensorPriority d =
     (case map_of d ''ccline'' of
        None \<Rightarrow> (d, Some KeyError)
      | Some None \<Rightarrow> (d, None)
      | Some (Some cc) \<Rightarrow> (if cc = [] then (d, None) else priority_loop [0..<length cc] d))"

definition updateSensorsData :: "env \<Rightarrow> hub \<Rightarrow> hub \<times> pyerr option" where
  "updateSensorsData ev s =
     (case iMapMgr s of
        None \<Rightarrow> (s, None)
      | Some m \<Rightarrow>
          (case refresh_loop (\<lambda>key. (Some (sensorsState m key), None))
                  (map fst (sensorsDict s)) (sensorsDict s) of
             (d, Some err) \<Rightarrow> (s\<lparr>sensorsDict := d\<rparr>, Some err)
           | (d, None) \<Rightarrow>
               (if \<not> gTestMD ev
                then (case updateSensorPriority d of (d', e) \<Rightarrow> (s\<lparr>sensorsDict := d'\<rparr>, e))
                else (s\<lparr>sensorsDict := d\<rparr>, None))))"

definition updateStationsData :: "hub \<Rightarrow> hub \<times> pyerr option" where
  "updateStationsData s =
     (case iMapMgr s of
        None \<Rightarrow> (s, None)
      | Some m \<Rightarrow>
          (case refresh_loop
                  (\<lambda>key. (Some (map (\<lambda>dock. if dock then 1 else 0) (stationsDock m key)), None))
                  (map fst (stationsDict s)) (stationsDict s) of
             (d, e) \<Rightarrow> (s\<lparr>stationsDict := d\<rparr>, e)))"

definition updateTrainsPwrData :: "hub \<Rightarrow> hub \<times> pyerr option" where
  "updateTrainsPwrData s =
     (case iMapMgr s of
        None \<Rightarrow> (s, None)
      | Some m \<Rightarrow>
          (case refresh_loop
                  (\<lambda>key. case trainsOn m key of
                            None \<Rightarrow> (Some [], Some TypeError)
                          | Some ts \<Rightarrow>
                              (Some (map (\<lambda>t. if powerState t = 0 then 0 else 1) ts), None))
                  (map fst (trainsDict s)) (trainsDict s) of
             (d, e) \<Rightarrow> (s\<lparr>trainsDict := d\<rparr>, e)))"

text \<open>
  One row \<^verbatim>\<open>[state['fsensor'], state['speed'], state['voltage'], state['current']]\<close>
  of \<^verbatim>\<open>updateTrainsSenData\<close>, and the rows appended before a train makes the body raise.
\<close>

definition rtu_row :: "train \<Rightarrow> pyerr + pyval list" where
  "rtu_row t =
     (case realInfo t of
        None \<Rightarrow> Inl TypeError
      | Some info \<Rightarrow>
          (case (map_of info ''fsensor'', map_of info ''speed'',
                 map_of info ''voltage'', map_of info ''current'') of
             (Some a, Some b, Some c, Some d) \<Rightarrow> Inr [a, b, c, d]
           | _ \<Rightarrow> Inl KeyError))"

fun rtu_rows :: "train list \<Rightarrow> pyval list list \<times> pyerr option" where
  "rtu_rows [] = ([], None)"
| "rtu_rows (t # ts) =
     (case rtu_row t of
        Inl e \<Rightarrow> ([], Some e)
      | Inr r \<Rightarrow> (case rtu_rows ts of (rs, e) \<Rightarrow> (r # rs, e)))"

definition updateTrainsSenData :: "hub \<Rightarrow> hub \<times> pyerr option" where
  "updateTrainsSenData s =
     (case iMapMgr s of
        None \<Rightarrow> (s, None)
      | Some m \<Rightarrow>
          (case refresh_loop
                  (\<lambda>key. case trainsOn m key of
                            None \<Rightarrow> (Some [], Some TypeError)
                          | Some ts \<Rightarrow> (case rtu_rows ts of (rs, e) \<Rightarrow> (Some rs, e)))
                  (map fst (trainsRtuDict s)) (trainsRtuDict s) of
             (d, e) \<Rightarrow> (s\<lparr>trainsRtuDict := d\<rparr>, e)))"

section \<open>Fetch handlers\<close>

definition failed_body :: "env \<Rightarrow> string" where
  "failed_body ev = json_dumps ev (PDict [(''result'', PStr ''failed'')])"

definition success_body :: "env \<Rightarrow> string" where
  "success_body ev = json_dumps ev (PDict [(''result'', PStr ''success'')])"

text \<open>The cached values as they appear in a reply.\<close>

definition sens_val :: "int list option \<Rightarrow> pyval" where
  "sens_val v = (case v of None \<Rightarrow> PNone | Some xs \<Rightarrow> PList (map (\<lambda>x. PNum (of_int x)) xs))"

definition rtu_val :: "pyval list list option \<Rightarrow> pyval" where
  "rtu_val v = (case v of None \<Rightarrow> PNone | Some rows \<Rightarrow> PList (map PList rows))"

text \<open>
  The loop \<^verbatim>\<open>for key in reqDict.keys(): if key in guard.keys(): reqDict[key] = tbl[key]\<close>.
  In \<^verbatim>\<open>fetchTrainSensInfo\<close> the guard is \<^verbatim>\<open>self.trainsDict\<close> and the table is
  \<^verbatim>\<open>self.trainsRtuDict\<close>; in the other three they are the same dictionary.
\<close>

fun fill_req ::
  "string list \<Rightarrow> (string \<times> 'v) list \<Rightarrow> ('v \<Rightarrow> pyval) \<Rightarrow> string list
     \<Rightarrow> (string \<times> pyval) list \<Rightarrow> pyerr + (string \<times> pyval) list" where
  "fill_req guard tbl conv [] rd = Inr rd"
| "fill_req guard tbl conv (key # keys) rd =
     (if key \<in> set guard
      then (case map_of tbl key of
              None \<Rightarrow> Inl KeyError
            | Some v \<Rightarrow> fill_req guard tbl conv keys (AList.update key (conv v) rd))
      else fill_req guard tbl conv keys rd)"

text \<open>A request body that is not a JSON object has no \<^verbatim>\<open>keys()\<close>: AttributeError.\<close>

definition fill_reply ::
  "env \<Rightarrow> pyval \<Rightarrow> string list \<Rightarrow> (string \<times> 'v) list \<Rightarrow> ('v \<Rightarrow> pyval) \<Rightarrow> string" where
  "fill_reply ev req guard tbl conv =
     (case req of
        PDict rd \<Rightarrow>
          (case fill_req guard tbl conv (map fst rd) rd of
             Inl e \<Rightarrow> failed_body ev
           | Inr rd' \<Rightarrow> json_dumps ev (PDict rd'))
      | _ \<Rightarrow> failed_body ev)"

text \<open>The argument \<open>now\<close> is the value \<^verbatim>\<open>time.time()\<close> returns in the call.\<close>

definition fetchSensorInfo :: "env \<Rightarrow> real \<Rightarrow> string \<Rightarrow> hub \<Rightarrow> string \<times> hub" where
  "fetchSensorInfo ev now reqJsonStr s =
     (case json_loads ev reqJsonStr of
        None \<Rightarrow> (failed_body ev, s)
      | Some req \<Rightarrow>
          (case updateSensorsData ev (s\<lparr>sensorPlcUpdateT := now\<rparr>) of
             (s', Some err) \<Rightarrow> (failed_body ev, s')
           | (s', None) \<Rightarrow>
               (fill_reply ev req (map fst (sensorsDict s')) (sensorsDict s') sens_val, s')))"

definition fetchStationInfo :: "env \<Rightarrow> real \<Rightarrow> string \<Rightarrow> hub \<Rightarrow> string \<times> hub" where
  "fetchStationInfo ev now reqJsonStr s =
     (case json_loads ev reqJsonStr of
        None \<Rightarrow> (failed_body ev, s)
      | Some req \<Rightarrow>
          (case updateStationsData (s\<lparr>stationPlcUpdateT := now\<rparr>) of
             (s', Some err) \<Rightarrow> (failed_body ev, s')
           | (s', None) \<Rightarrow>
               (fill_reply ev req (map fst (stationsDict s')) (stationsDict s') sens_val, s')))"

definition fetchTrainPwrInfo :: "env \<Rightarrow> real \<Rightarrow> string \<Rightarrow> hub \<Rightarrow> string \<times> hub" where
  "fetchTrainPwrInfo ev now reqJsonStr s =
     (case json_loads ev reqJsonStr of
        None \<Rightarrow> (failed_body ev, s)
      | Some req \<Rightarrow>
          (case updateTrainsPwrData (s\<lparr>trainPlcUpdateT := now\<rparr>) of
             (s', Some err) \<Rightarrow> (failed_body ev, s')
           | (s', None) \<Rightarrow>
               (fill_reply ev req (map fst (trainsDict s')) (trainsDict s') sens_val, s')))"

definition fetchTrainSensInfo :: "env \<Rightarrow> real \<Rightarrow> string \<Rightarrow> hub \<Rightarrow> string \<times> hub" where
  "fetchTrainSensInfo ev now reqJsonStr s =
     (case json_loads ev reqJsonStr of
        None \<Rightarrow> (failed_body ev, s)
      | Some req \<Rightarrow>
          (case updateTrainsSenData (s\<lparr>trainRtuUpdateT := now\<rparr>) of
             (s', Some err) \<Rightarrow> (failed_body ev, s')
           | (s', None) \<Rightarrow>
               (fill_reply ev req (map fst (trainsDict s')) (trainsRtuDict s') rtu_val, s')))"

section \<open>Liveness report\<close>

definition getLastPlcsConnectionState ::
  "env \<Rightarrow> real \<Rightarrow> hub \<Rightarrow> (string \<times> string \<times> bool) list" where
  "getLastPlcsConnectionState ev crtTime s =
     [(''sensors'', clock_str ev (sensorPlcUpdateT s),
         crtTime - sensorPlcUpdateT s < gPlcTimeout ev),
      (''stations'', clock_str ev (stationPlcUpdateT s),
         crtTime - stationPlcUpdateT s < gPlcTimeout ev),
      (''trains'', clock_str ev (trainPlcUpdateT s),
         crtTime - trainPlcUpdateT s < gPlcTimeout ev)]"

definition getLastRtusConnectionState ::
  "env \<Rightarrow> real \<Rightarrow> hub \<Rightarrow> (string \<times> string \<times> bool) list" where
  "getLastRtusConnectionState ev crtTime s =
     [(''trains'', clock_str ev (trainRtuUpdateT s),
         crtTime - trainRtuUpdateT s < gPlcTimeout ev)]"

section \<open>Set handlers\<close>

text \<open>The engine's setters, recorded call by call.\<close>

definition setSingals :: "string \<times> pyval \<Rightarrow> mapmgr \<Rightarrow> mapmgr" where
  "setSingals kv m = m\<lparr>signalCalls := signalCalls m @ [kv]\<rparr>"

definition setStationSignal :: "string \<times> pyval \<Rightarrow> mapmgr \<Rightarrow> mapmgr" where
  "setStationSignal kv m = m\<lparr>stationSignalCalls := stationSignalCalls m @ [kv]\<rparr>"

definition setTainsPower :: "string \<times> pyval \<Rightarrow> mapmgr \<Rightarrow> mapmgr" where
  "setTainsPower kv m = m\<lparr>trainsPowerCalls := trainsPowerCalls m @ [kv]\<rparr>"

definition setSignals :: "env \<Rightarrow> string \<Rightarrow> hub \<Rightarrow> string \<times> hub" where
  "setSignals ev reqJsonStr s =
     (case json_loads ev reqJsonStr of
        None \<Rightarrow> (failed_body ev, s)
      | Some reqDict \<Rightarrow>
          (case iMapMgr s of
             None \<Rightarrow> (failed_body ev, s)
           | Some m \<Rightarrow>
               (if \<not> gJuncAvoid ev
                then (case reqDict of
                        PDict rd \<Rightarrow> (success_body ev, s\<lparr>iMapMgr := Some (fold setSingals rd m)\<rparr>)
                      | _ \<Rightarrow> (failed_body ev, s))
                else (success_body ev, s))))"

definition setStationSignals :: "env \<Rightarrow> string \<Rightarrow> hub \<Rightarrow> string \<times> hub" where
  "setStationSignals ev reqJsonStr s =
     (case json_loads ev reqJsonStr of
        None \<Rightarrow> (failed_body ev, s)
      | Some reqDict \<Rightarrow>
          (case iMapMgr s of
             None \<Rightarrow> (failed_body ev, s)
           | Some m \<Rightarrow>
               (case reqDict of
                  PDict rd \<Rightarrow>
                    (success_body ev, s\<lparr>iMapMgr := Some (fold setStationSignal rd m)\<rparr>)
                | _ \<Rightarrow> (failed_body ev, s))))"

definition setTrainsPower :: "env \<Rightarrow> string \<Rightarrow> hub \<Rightarrow> string \<times> hub" where
  "setTrainsPower ev reqJsonStr s =
     (case json_loads ev reqJsonStr of
        None \<Rightarrow> (failed_body ev, s)
      | Some reqDict \<Rightarrow>
          (case iMapMgr s of
             None \<Rightarrow> (failed_body ev, s)
           | Some m \<Rightarrow>
               (case reqDict of
                  PDict rd \<Rightarrow> (success_body ev, s\<lparr>iMapMgr := Some (fold setTainsPower rd m)\<rparr>)
                | _ \<Rightarrow> (failed_body ev, s))))"

section \<open>Request dispatcher\<close>

text \<open>
  The \<^verbatim>\<open>powerLink\<close> branch of \<^verbatim>\<open>msgHandler\<close>: an empty body stands for \<^verbatim>\<open>{}\<close>, a
  body that is not a JSON object has no \<^verbatim>\<open>get\<close> (AttributeError), and both exceptions
  are answered with the failed body.
\<close>

definition handlePowerLink :: "env \<Rightarrow> string \<Rightarrow> hub \<Rightarrow> string \<times> hub" where
  "handlePowerLink ev reqJsonStr s =
     (case (if reqJsonStr \<noteq> [] then json_loads ev reqJsonStr else Some (PDict [])) of
        Some (PDict d) \<Rightarrow>
          (let railway_on = truthy (dict_get d ''railway'' (PBool True)) in
           if last_powerlink_railway s = None \<or> Some railway_on \<noteq> last_powerlink_railway s
           then (success_body ev,
                 (applyRailwayPowerLink railway_on s)\<lparr>last_powerlink_railway := Some railway_on\<rparr>)
           else (success_body ev, s))
      | _ \<Rightarrow> (failed_body ev, s))"

definition rep :: "string \<Rightarrow> string \<times> hub \<Rightarrow> string option \<times> hub" where
  "rep reqType r = (Some (''REP;'' @ reqType @ '';'' @ fst r), snd r)"

text \<open>
  \<^verbatim>\<open>msgHandler\<close>: the reply is the text that is sent (\<open>None\<close> when the handler returns
  \<^verbatim>\<open>None\<close>), and an exception of \<^verbatim>\<open>parseIncomeMsg\<close> leaves the handler.
\<close>

definition msgHandler :: "env \<Rightarrow> real \<Rightarrow> msg \<Rightarrow> hub \<Rightarrow> pyerr + (string option \<times> hub)" where
  "msgHandler ev now m s =
     (if m = MBytes [] then Inr (None, s)
      else
        (case parseIncomeMsg ev m of
           Inl e \<Rightarrow> Inl e
         | Inr (reqKey, reqType, reqJsonStr) \<Rightarrow>
             (if reqKey = ''GET'' then
                (if reqType = ''login'' then
                   Inr (rep ''login'' (json_dumps ev (PDict [(''state'', PStr ''ready'')]), s))
                 else if reqType = ''sensors'' then
                   Inr (rep ''sensors'' (fetchSensorInfo ev now reqJsonStr s))
                 else if reqType = ''stations'' then
                   Inr (rep ''stations'' (fetchStationInfo ev now reqJsonStr s))
                 else if reqType = ''trainsPlc'' then
                   Inr (rep ''trainsPlc'' (fetchTrainPwrInfo ev now reqJsonStr s))
                 else if reqType = ''trainsRtu'' then
                   Inr (rep ''trainsRtu'' (fetchTrainSensInfo ev now reqJsonStr s))
                 else Inr (Some ''REP;deny;{}'', s))
              else if reqKey = ''POST'' then
                (if reqType = ''signals'' then
                   Inr (rep ''signals'' (setSignals ev reqJsonStr s))
                 else if reqType = ''stations'' then
                   Inr (rep ''stations'' (setStationSignals ev reqJsonStr s))
                 else if reqType = ''trainsPlc'' then
                   Inr (rep ''trainsPlc'' (setTrainsPower ev reqJsonStr s))
                 else if reqType = ''powerLink'' then
                   Inr (rep ''powerLink'' (handlePowerLink ev reqJsonStr s))
                 else Inr (Some ''REP;deny;{}'', s))
              else Inr (Some ''REP;deny;{}'', s))))"

section \<open>Telemetry aggregate\<close>

record payload =
  ts_ms :: int
  line_id :: string
  bus_v :: real
  total_i :: real
  train_count :: nat

text \<open>\<^verbatim>\<open>float(x)\<close> and \<^verbatim>\<open>int(x)\<close> (truncation towards zero).\<close>

fun py_float :: "env \<Rightarrow> pyval \<Rightarrow> pyerr + real" where
  "py_float ev PNone = Inl TypeError"
| "py_float ev (PBool b) = Inr (if b then 1 else 0)"
| "py_float ev (PNum r) = Inr r"
| "py_float ev (PStr str) = (case str_to_float ev str of None \<Rightarrow> Inl ValueError | Some r \<Rightarrow> Inr r)"
| "py_float ev (PList xs) = Inl TypeError"
| "py_float ev (PDict d) = Inl TypeError"

definition py_int :: "real \<Rightarrow> int" where
  "py_int r = (if 0 \<le> r then \<lfloor>r\<rfloor> else \<lceil>r\<rceil>)"

text \<open>
  The loop \<^verbatim>\<open>for tr in trains\<close> of \<^verbatim>\<open>_collectMetroTotalsPayloads\<close>: the conversion of
  the current is not inside a \<^verbatim>\<open>try\<close>, the conversion of the voltage is.
\<close>

fun totals_loop :: "env \<Rightarrow> train list \<Rightarrow> real \<Rightarrow> real list \<Rightarrow> pyerr + (real \<times> real list)" where
  "totals_loop ev [] tot voltages = Inr (tot, voltages)"
| "totals_loop ev (tr # trs) tot voltages =
     (let info = (case realInfo tr of None \<Rightarrow> [] | Some i \<Rightarrow> i);
          c = dict_get info ''current'' (PNum 0)
      in case py_float ev (if truthy c then c else PNum 0) of
           Inl e \<Rightarrow> Inl e
         | Inr x \<Rightarrow>
             (let v = dict_get info ''voltage'' PNone
              in totals_loop ev trs (tot + x)
                   (if v \<noteq> PNone
                    then (case py_float ev v of Inl e \<Rightarrow> voltages | Inr y \<Rightarrow> voltages @ [y])
                    else voltages)))"

fun collect_lines :: "env \<Rightarrow> int \<Rightarrow> mapmgr \<Rightarrow> string list \<Rightarrow> pyerr + payload list" where
  "collect_lines ev ts m [] = Inr []"
| "collect_lines ev ts m (l # ls) =
     (case trainsOn m l of
        None \<Rightarrow> Inl TypeError
      | Some trains \<Rightarrow>
          (case totals_loop ev trains 0 [] of
             Inl e \<Rightarrow> Inl e
           | Inr (tot, voltages) \<Rightarrow>
               (case collect_lines ev ts m ls of
                  Inl e \<Rightarrow> Inl e
                | Inr ps \<Rightarrow>
                    Inr (\<lparr> ts_ms = ts, line_id = l,
                           bus_v = (if voltages \<noteq> []
                                    then sum_list voltages / real (length voltages) else 0),
                           total_i = tot, train_count = length trains \<rparr> # ps))))"

definition collectMetroTotalsPayloads :: "env \<Rightarrow> real \<Rightarrow> hub \<Rightarrow> pyerr + payload list" where
  "collectMetroTotalsPayloads ev now s =
     (case iMapMgr s of
        None \<Rightarrow> Inr []
      | Some m \<Rightarrow> collect_lines ev (py_int (now * 1000)) m line_ids)"

section \<open>Poll-path power-link watcher\<close>

text \<open>
  \<^verbatim>\<open>PowerLinkWatcher\<close>: its fields, with the local variable \<^verbatim>\<open>last_state\<close> of
  \<^verbatim>\<open>run\<close>. One pass of the endless loop of \<^verbatim>\<open>run\<close> is \<open>watcher_iter\<close>, given what
  \<^verbatim>\<open>self.client.sendMsg\<close> did in that pass; the watcher over the first passes is the
  fold of \<open>watcher_iter\<close> over what the passes received.
\<close>

record watcher =
  seen_true :: bool
  false_count :: int
  last_state :: "bool option"

definition init_watcher :: watcher where
  "init_watcher = \<lparr> seen_true = False, false_count = 0, last_state = None \<rparr>"

datatype sendres = SendRaises | SendNoBytes | SendBytes string

definition set_all_trains_power :: "bool \<Rightarrow> hub \<Rightarrow> hub" where
  "set_all_trains_power state s = applyRailwayPowerLink state s"

text \<open>The debounce block of \<^verbatim>\<open>run\<close>, from \<^verbatim>\<open>if railway_on:\<close> to \<^verbatim>\<open>last_state = railway_on\<close>.\<close>

definition watch_reading :: "bool \<Rightarrow> watcher \<times> hub \<Rightarrow> watcher \<times> hub" where
  "watch_reading railway_on ws =
     (case ws of (w, s) \<Rightarrow>
        (if railway_on
         then (w\<lparr>seen_true := True, false_count := 0, last_state := Some railway_on\<rparr>, s)
         else if seen_true w
         then (w\<lparr>false_count := false_count w + 1, last_state := Some railway_on\<rparr>,
               if false_count w + 1 \<ge> 3 then set_all_trains_power False s else s)
         else (w\<lparr>last_state := Some railway_on\<rparr>, s)))"

definition watcher_iter :: "env \<Rightarrow> sendres \<Rightarrow> watcher \<times> hub \<Rightarrow> watcher \<times> hub" where
  "watcher_iter ev resp ws =
     (case resp of
        SendBytes b \<Rightarrow>
          (case parseIncomeMsg ev (MBytes b) of
             Inl e \<Rightarrow> ws
           | Inr (k, t, j) \<Rightarrow>
               (if k = ''REP'' \<and> t = ''powerLink''
                then (case json_loads ev j of
                        Some (PDict d) \<Rightarrow>
                          watch_reading (truthy (dict_get d ''railway'' (PBool True))) ws
                      | _ \<Rightarrow> ws)
                else ws))
      | _ \<Rightarrow> ws)"

definition watcher_run :: "env \<Rightarrow> sendres list \<Rightarrow> watcher \<times> hub \<Rightarrow> watcher \<times> hub" where
  "watcher_run ev resps ws = fold (watcher_iter ev) resps ws"

section \<open>Notions of the specification\<close>

text \<open>
  The key lists of the four snapshot tables, in dictionary order, and the invariant of
  the data model: each table has exactly the four line keys.
\<close>

definition table_keys :: "hub \<Rightarrow> string list \<times> string list \<times> string list \<times> string list" where
  "table_keys s = (map fst (sensorsDict s), map fst (stationsDict s),
                   map fst (trainsDict s), map fst (trainsRtuDict s))"

definition four_keys :: "hub \<Rightarrow> bool" where
  "four_keys s = (table_keys s = (line_ids, line_ids, line_ids, line_ids))"

text \<open>
  The sensor priority resolver in the words of the specification: the rule of slot \<open>i\<close>
  fires when one of its listed in-bounds indices is true in the named other line's
  array, and the resolved cc-line array has 0 wherever the rule fires on a true value.
\<close>

definition rule_fires :: "(string \<Rightarrow> int list) \<Rightarrow> nat \<Rightarrow> bool" where
  "rule_fires st i =
     (i < 16 \<and>
      (case priorityConfig ! i of
         None \<Rightarrow> False
       | Some (key, idxs) \<Rightarrow> (\<exists>j \<in> set idxs. j < length (st key) \<and> st key ! j \<noteq> 0)))"

definition priority_spec :: "(string \<Rightarrow> int list) \<Rightarrow> int list" where
  "priority_spec st =
     map (\<lambda>i. if rule_fires st i \<and> st ''ccline'' ! i \<noteq> 0 then 0 else st ''ccline'' ! i)
       [0..<length (st ''ccline'')]"

text \<open>
  The sensor table after a refresh from the engine, with a given cc-line array, and the
  effect of one pass of the resolver's loop on the cc-line array.
\<close>

definition refreshed :: "(string \<Rightarrow> int list) \<Rightarrow> int list \<Rightarrow> (string \<times> int list option) list" where
  "refreshed st cc =
     [(''weline'', Some (st ''weline'')), (''nsline'', Some (st ''nsline'')),
      (''ccline'', Some cc), (''mtline'', Some (st ''mtline''))]"

definition clear_at :: "(string \<Rightarrow> int list) \<Rightarrow> nat \<Rightarrow> int list \<Rightarrow> int list" where
  "clear_at st i cc = cc[i := (if rule_fires st i \<and> cc ! i \<noteq> 0 then 0 else cc ! i)]"

text \<open>
  A reply dictionary \<open>rd'\<close> answers the request dictionary \<open>rd\<close> from a table: same keys
  in the same order, each line key paired with the table's value, every other key with
  the value the request gave it.
\<close>

definition cached_reply ::
  "(string \<times> 'v) list \<Rightarrow> ('v \<Rightarrow> pyval) \<Rightarrow> (string \<times> pyval) list \<Rightarrow> (string \<times> pyval) list \<Rightarrow> bool" where
  "cached_reply tbl conv rd rd' =
     (map fst rd' = map fst rd \<and>
      (\<forall>k \<in> set (map fst rd).
         map_of rd' k = (if k \<in> set line_ids then map_option conv (map_of tbl k) else map_of rd k)))"

text \<open>
  The online flag of a channel in a liveness report, and the \<^verbatim>\<open>setEmgStop\<close> calls the
  trains of a line have received.
\<close>

definition online :: "(string \<times> string \<times> bool) list \<Rightarrow> string \<Rightarrow> bool option" where
  "online report channel = map_option snd (map_of report channel)"

definition stops_received :: "hub \<Rightarrow> string \<Rightarrow> bool list list" where
  "stops_received s l =
     (case iMapMgr s of
        None \<Rightarrow> []
      | Some m \<Rightarrow> (case trainsOn m l of None \<Rightarrow> [] | Some ts \<Rightarrow> map emgStopCalls ts))"

section \<open>A concrete environment and engine\<close>

text \<open>
  The environment of the concrete evaluations: \<^verbatim>\<open>json.loads\<close> and \<^verbatim>\<open>json.dumps\<close> are
  given on the texts and values that occur in them, bytes decode when they are ASCII,
  and \<^verbatim>\<open>float\<close> reads the one numeral listed and rejects every other text.
\<close>

definition demo_env :: env where
  \<open>demo_env =
     \<lparr> gTestMD = False, gJuncAvoid = False, gPlcTimeout = 5,
       json_loads = map_of
         [(''{}'', PDict []),
          (''{"railway": 0}'', PDict [(''railway'', PNum 0)]),
          (''{"railway": 1}'', PDict [(''railway'', PNum 1)]),
          (''{"ccline": null}'', PDict [(''ccline'', PNone)]),
          (''{"S1": 1}'', PDict [(''S1'', PNum 1)])],
       json_dumps = (\<lambda>v. case map_of
         [(PDict [], ''{}''),
          (PDict [(''result'', PStr ''failed'')], ''{"result": "failed"}''),
          (PDict [(''result'', PStr ''success'')], ''{"result": "success"}''),
          (PDict [(''state'', PStr ''ready'')], ''{"state": "ready"}''),
          (PDict [(''ccline'', PNone)], ''{"ccline": null}'')] v of
            None \<Rightarrow> [] | Some t \<Rightarrow> t),
       utf8_decode = (\<lambda>b. if list_all (\<lambda>c. (of_char c :: nat) < 128) b then Some b else None),
       str_to_float = map_of [(''2.5'', 5 / 2)],
       clock_str = (\<lambda>t. ''00:00:00'') \<rparr>\<close>

text \<open>
  An engine with one reachable train on the west-east line, a train that cannot be
  reached, and the hubs of the concrete evaluations: a line whose first train is
  unreachable, and a line of two trains whose second train reports a given current and
  voltage. A poll reply carries the railway flag as the power grid sends it.
\<close>

definition good_train :: train where
  "good_train =
     \<lparr> powerState = 1,
       realInfo = Some [(''fsensor'', PBool False), (''speed'', PNum 10),
                        (''voltage'', PNum 10), (''current'', PNum 2)],
       emgStopCalls = [], emgStopRaises = False \<rparr>"

definition bad_train :: train where
  "bad_train = good_train\<lparr>emgStopRaises := True\<rparr>"

definition demo_mgr :: mapmgr where
  "demo_mgr =
     \<lparr> sensorsState = (\<lambda>k. if k = ''ccline'' then [1, 1, 1, 0, 1, 0, 1]
                           else if k = ''nsline'' then [0, 0, 1] else []),
       stationsDock = (\<lambda>k. []),
       trainsOn = (\<lambda>k. if k = ''weline'' then Some [good_train] else Some []),
       signalCalls = [], stationSignalCalls = [], trainsPowerCalls = [] \<rparr>"

definition demo_hub :: hub where
  "demo_hub = init_hub\<lparr>iMapMgr := Some demo_mgr\<rparr>"

definition blocked_hub :: hub where
  "blocked_hub =
     demo_hub\<lparr>iMapMgr := Some (demo_mgr\<lparr>trainsOn :=
        (\<lambda>k. if k = ''weline'' then Some [bad_train, good_train] else Some [good_train])\<rparr>)\<rparr>"

definition telemetry_hub :: "pyval \<Rightarrow> pyval \<Rightarrow> hub" where
  "telemetry_hub current2 voltage2 =
     demo_hub\<lparr>iMapMgr := Some (demo_mgr\<lparr>trainsOn :=
        (\<lambda>k. if k = ''weline''
              then Some [good_train\<lparr>realInfo := Some [(''current'', PNum 2), (''voltage'', PNum 10)]\<rparr>,
                         good_train\<lparr>realInfo := Some [(''current'', current2), (''voltage'', voltage2)]\<rparr>]
              else Some [])\<rparr>)\<rparr>"

definition poll_reply :: "bool \<Rightarrow> sendres" where
  \<open>poll_reply railway_on =
     SendBytes (if railway_on then ''REP;powerLink;{"railway": 1}''
                else ''REP;powerLink;{"railway": 0}'')\<close>

lemmas demo_simps =
  watch_reading_def init_watcher_def demo_hub_def init_hub_def demo_mgr_def
  set_all_trains_power_def applyRailwayPowerLink_def line_ids_def emg_line_def
  stops_received_def good_train_def bad_train_def setEmgStop_def

section \<open>Message codec and deny reply\<close>

lemma py_split_length: "length (py_split c n s) = Suc (min n (count_list s c))"
proof (induction c n s rule: py_split.induct)
  case (1 c s)
  show ?case by simp
next
  case (2 c n s)
  show ?case
  proof (cases "c \<in> set s")
    case True
    have "count_list s c = Suc (count_list (tl (dropWhile (\<lambda>x. x \<noteq> c) s)) c)"
      using True by (induction s) auto
    with 2 True show ?thesis by simp
  next
    case False
    then show ?thesis by (simp add: count_list_0_iff)
  qed
qed

lemma unpack_not_three:
  assumes "length parts \<noteq> 3"
  shows "(case parts of [a, b, c] \<Rightarrow> f a b c | _ \<Rightarrow> d) = d"
  using assms by (auto split: list.splits)

lemma parse_few_semicolons:
  assumes "count_list req (CHR '';'') < 2"
  shows "(case py_split (CHR '';'') 2 req of
             [reqKey, reqType, reqJsonStr] \<Rightarrow> Inr (py_strip reqKey, py_strip reqType, reqJsonStr)
           | _ \<Rightarrow> Inr ('''', '''', ''{}''))
         = (Inr ('''', '''', ''{}'') :: pyerr + (string \<times> string \<times> string))"
proof -
  have "length (py_split (CHR '';'') 2 req) \<noteq> 3"
    using assms by (simp add: py_split_length)
  then show ?thesis by (rule unpack_not_three)
qed

text \<open>
  C5, as amended. The split is \<^verbatim>\<open>req.split(';', 2)\<close>, so only a message with fewer
  than two semicolons fails to unpack: for every such message, given as text or as
  non-empty bytes that decode, the decoder returns \<^verbatim>\<open>('', '', '{}')\<close> without raising,
  no handler runs (the state is unchanged) and the reply is \<^verbatim>\<open>REP;deny;{}\<close>.
\<close>

theorem malformed_message_denied:
  assumes "count_list req (CHR '';'') < 2"
    and "m = MStr req \<or> (m = MBytes b \<and> b \<noteq> [] \<and> utf8_decode ev b = Some req)"
  shows "parseIncomeMsg ev m = Inr ('''', '''', ''{}'')
       \<and> msgHandler ev now m s = Inr (Some ''REP;deny;{}'', s)"
proof -
  have p: "parseIncomeMsg ev m = Inr ('''', '''', ''{}'')"
    using assms(2) parse_few_semicolons[OF assms(1)] by (auto simp: parseIncomeMsg_def)
  have "m \<noteq> MBytes []" using assms(2) by auto
  then have "msgHandler ev now m s = Inr (Some ''REP;deny;{}'', s)"
    by (simp add: msgHandler_def p)
  with p show ?thesis by simp
qed

theorem malformed_message_denied_witness:
  \<open>parseIncomeMsg demo_env (MBytes ''GET;login'') = Inr ('''', '''', ''{}'')
   \<and> msgHandler demo_env 7 (MBytes ''GET;login'') init_hub
       = Inr (Some ''REP;deny;{}'', init_hub)\<close>
proof -
  have a: "count_list ''GET;login'' (CHR '';'') < 2" by simp
  have b: "MBytes ''GET;login'' = MStr ''GET;login''
      \<or> (MBytes ''GET;login'' = MBytes ''GET;login'' \<and> ''GET;login'' \<noteq> []
          \<and> utf8_decode demo_env ''GET;login'' = Some ''GET;login'')"
    by (simp add: demo_env_def)
  show ?thesis using malformed_message_denied[OF a b] by simp
qed

text \<open>
  C5 as stated fails: a message of four semicolon-delimited parts is split at its first
  two semicolons only, decodes to a routable triplet and is answered by the login handler.
\<close>

theorem four_part_message_counterexample:
  \<open>Suc (count_list ''GET;login;{};x'' (CHR '';'')) \<noteq> 3
   \<and> parseIncomeMsg demo_env (MStr ''GET;login;{};x'') = Inr (''GET'', ''login'', ''{};x'')
   \<and> parseIncomeMsg demo_env (MStr ''GET;login;{};x'') \<noteq> Inr ('''', '''', ''{}'')
   \<and> msgHandler demo_env 7 (MStr ''GET;login;{};x'') init_hub
       = Inr (Some ''REP;login;{"state": "ready"}'', init_hub)\<close>
  by (simp add: parseIncomeMsg_def msgHandler_def numeral_2_eq_2 py_strip_def py_isspace_def
      rep_def demo_env_def)

section \<open>The four line keys of every table\<close>

lemma refresh_loop_keys:
  "set keys \<subseteq> set (map fst d) \<Longrightarrow> map fst (fst (refresh_loop f keys d)) = map fst d"
proof (induction keys arbitrary: d)
  case Nil
  show ?case by simp
next
  case (Cons key keys)
  have k: "map fst (AList.update key v d) = map fst d" for v
    using Cons.prems by (simp add: update_keys)
  show ?case
  proof (cases "f key")
    case (Pair v e)
    show ?thesis
    proof (cases e)
      case None
      have "set keys \<subseteq> set (map fst (AList.update key v d))"
        using Cons.prems k by simp
      from Cons.IH[OF this] show ?thesis using Pair None k by simp
    next
      case (Some err)
      then show ?thesis using Pair k by simp
    qed
  qed
qed

lemma refresh_loop_own_keys: "map fst (fst (refresh_loop f (map fst d) d)) = map fst d"
  by (rule refresh_loop_keys) simp

lemma refresh_loop_own_keys_eq:
  "refresh_loop f (map fst d) d = (d', e) \<Longrightarrow> map fst d' = map fst d"
  using refresh_loop_own_keys[of f d] by simp

lemma seq_of_key: "seq_of d key = Inr xs \<Longrightarrow> key \<in> set (map fst d)"
  by (auto simp: seq_of_def split: option.splits dest: map_of_SomeD intro: rev_image_eqI)

lemma priority_loop_keys: "map fst (fst (priority_loop is d)) = map fst d"
proof (induction "is" arbitrary: d)
  case Nil
  show ?case by simp
next
  case (Cons i "is")
  show ?case
  proof (cases "seq_of d ''ccline''")
    case (Inl e)
    then show ?thesis by simp
  next
    case (Inr cc)
    have k: "map fst (AList.update ''ccline'' v d) = map fst d" for v
      using seq_of_key[OF Inr] by (simp add: update_keys)
    show ?thesis
      using Inr Cons.IH k
      by (simp split: option.splits sum.splits prod.splits)
  qed
qed

lemma updateSensorPriority_keys: "map fst (fst (updateSensorPriority d)) = map fst d"
  by (simp add: updateSensorPriority_def priority_loop_keys split: option.splits)

lemma updateSensorsData_keys: "table_keys (fst (updateSensorsData ev s)) = table_keys s"
proof (cases "iMapMgr s")
  case None
  then show ?thesis by (simp add: updateSensorsData_def)
next
  case (Some m)
  obtain d e where r: "refresh_loop (\<lambda>key. (Some (sensorsState m key), None))
      (map fst (sensorsDict s)) (sensorsDict s) = (d, e)" by (cases "refresh_loop (\<lambda>key. (Some (sensorsState m key), None))
      (map fst (sensorsDict s)) (sensorsDict s)")
  have kd: "map fst d = map fst (sensorsDict s)"
    using refresh_loop_own_keys[of "\<lambda>key. (Some (sensorsState m key), None)" "sensorsDict s"] r by simp
  obtain d' e' where p: "updateSensorPriority d = (d', e')" by (cases "updateSensorPriority d")
  have kd': "map fst d' = map fst (sensorsDict s)"
    using updateSensorPriority_keys[of d] p kd by simp
  show ?thesis using Some r p kd kd'
    by (simp add: updateSensorsData_def table_keys_def split: option.splits)
qed

lemma updateStationsData_keys: "table_keys (fst (updateStationsData s)) = table_keys s"
  by (auto simp: updateStationsData_def table_keys_def split: option.splits prod.splits
      dest: refresh_loop_own_keys_eq)

lemma updateTrainsPwrData_keys: "table_keys (fst (updateTrainsPwrData s)) = table_keys s"
  by (auto simp: updateTrainsPwrData_def table_keys_def split: option.splits prod.splits
      dest: refresh_loop_own_keys_eq)

lemma updateTrainsSenData_keys: "table_keys (fst (updateTrainsSenData s)) = table_keys s"
  by (auto simp: updateTrainsSenData_def table_keys_def split: option.splits prod.splits
      dest: refresh_loop_own_keys_eq)

lemma table_keys_upd [simp]:
  "table_keys (s\<lparr>sensorPlcUpdateT := t\<rparr>) = table_keys s"
  "table_keys (s\<lparr>stationPlcUpdateT := t\<rparr>) = table_keys s"
  "table_keys (s\<lparr>trainPlcUpdateT := t\<rparr>) = table_keys s"
  "table_keys (s\<lparr>trainRtuUpdateT := t\<rparr>) = table_keys s"
  "table_keys (s\<lparr>last_powerlink_railway := l\<rparr>) = table_keys s"
  "table_keys (s\<lparr>iMapMgr := e\<rparr>) = table_keys s"
  by (simp_all add: table_keys_def)

lemma fetchSensorInfo_keys: "table_keys (snd (fetchSensorInfo ev now j s)) = table_keys s"
  using updateSensorsData_keys[of ev "s\<lparr>sensorPlcUpdateT := now\<rparr>"]
  by (auto simp: fetchSensorInfo_def split: option.splits prod.splits)

lemma fetchStationInfo_keys: "table_keys (snd (fetchStationInfo ev now j s)) = table_keys s"
  using updateStationsData_keys[of "s\<lparr>stationPlcUpdateT := now\<rparr>"]
  by (auto simp: fetchStationInfo_def split: option.splits prod.splits)

lemma fetchTrainPwrInfo_keys: "table_keys (snd (fetchTrainPwrInfo ev now j s)) = table_keys s"
  using updateTrainsPwrData_keys[of "s\<lparr>trainPlcUpdateT := now\<rparr>"]
  by (auto simp: fetchTrainPwrInfo_def split: option.splits prod.splits)

lemma fetchTrainSensInfo_keys: "table_keys (snd (fetchTrainSensInfo ev now j s)) = table_keys s"
  using updateTrainsSenData_keys[of "s\<lparr>trainRtuUpdateT := now\<rparr>"]
  by (auto simp: fetchTrainSensInfo_def split: option.splits prod.splits)

lemma applyRailwayPowerLink_keys: "table_keys (applyRailwayPowerLink b s) = table_keys s"
  by (simp add: applyRailwayPowerLink_def split: option.splits)

lemma setters_keys:
  "table_keys (snd (setSignals ev j s)) = table_keys s"
  "table_keys (snd (setStationSignals ev j s)) = table_keys s"
  "table_keys (snd (setTrainsPower ev j s)) = table_keys s"
  by (auto simp: setSignals_def setStationSignals_def setTrainsPower_def
      split: option.splits pyval.splits)

lemma handlePowerLink_keys: "table_keys (snd (handlePowerLink ev j s)) = table_keys s"
  by (auto simp: handlePowerLink_def Let_def applyRailwayPowerLink_keys
      split: option.splits pyval.splits)

lemma msgHandler_keys:
  assumes "msgHandler ev now m s = Inr (r, s')"
  shows "table_keys s' = table_keys s"
  using assms
  by (auto simp: msgHandler_def rep_def fetchSensorInfo_keys fetchStationInfo_keys
      fetchTrainPwrInfo_keys fetchTrainSensInfo_keys setters_keys handlePowerLink_keys
      split: if_splits sum.splits prod.splits)

lemma watcher_iter_keys: "table_keys (snd (watcher_iter ev resp (w, s))) = table_keys s"
  by (auto simp: watcher_iter_def watch_reading_def set_all_trains_power_def
      applyRailwayPowerLink_keys split: sendres.splits sum.splits option.splits pyval.splits)

lemma four_keys_init: "four_keys init_hub"
  by (simp add: four_keys_def table_keys_def init_hub_def line_ids_def)

text \<open>
  C10. After \<^verbatim>\<open>__init__\<close> each of the four snapshot tables has exactly the keys
  weline, nsline, ccline, mtline, and no update, no fetch, no request handled by
  \<^verbatim>\<open>msgHandler\<close> and no pass of the power-link watcher adds or removes a key of any
  table: the key lists are the same before and after, so the four keys stay.
\<close>

theorem tables_keep_four_keys:
  "four_keys init_hub
   \<and> table_keys (fst (updateSensorsData ev s)) = table_keys s
   \<and> table_keys (fst (updateStationsData s)) = table_keys s
   \<and> table_keys (fst (updateTrainsPwrData s)) = table_keys s
   \<and> table_keys (fst (updateTrainsSenData s)) = table_keys s
   \<and> table_keys (snd (fetchSensorInfo ev now body s)) = table_keys s
   \<and> table_keys (snd (fetchStationInfo ev now body s)) = table_keys s
   \<and> table_keys (snd (fetchTrainPwrInfo ev now body s)) = table_keys s
   \<and> table_keys (snd (fetchTrainSensInfo ev now body s)) = table_keys s
   \<and> (\<forall>r s'. msgHandler ev now m s = Inr (r, s') \<longrightarrow> table_keys s' = table_keys s)
   \<and> table_keys (snd (watcher_iter ev resp (w, s))) = table_keys s
   \<and> (four_keys s \<longrightarrow>
        four_keys (fst (updateSensorsData ev s)) \<and> four_keys (fst (updateStationsData s))
        \<and> four_keys (fst (updateTrainsPwrData s)) \<and> four_keys (fst (updateTrainsSenData s))
        \<and> four_keys (snd (fetchSensorInfo ev now body s))
        \<and> four_keys (snd (fetchStationInfo ev now body s))
        \<and> four_keys (snd (fetchTrainPwrInfo ev now body s))
        \<and> four_keys (snd (fetchTrainSensInfo ev now body s)))"
  using msgHandler_keys[of ev now m s]
  by (simp add: four_keys_init[unfolded four_keys_def] updateSensorsData_keys updateStationsData_keys
      updateTrainsPwrData_keys updateTrainsSenData_keys fetchSensorInfo_keys
      fetchStationInfo_keys fetchTrainPwrInfo_keys fetchTrainSensInfo_keys
      watcher_iter_keys four_keys_def)

theorem tables_keep_four_keys_witness:
  \<open>four_keys demo_hub
   \<and> map fst (sensorsDict (snd (fetchSensorInfo demo_env 7 ''{"ccline": null}'' demo_hub)))
       = [''weline'', ''nsline'', ''ccline'', ''mtline'']
   \<and> map fst (trainsRtuDict (fst (updateTrainsSenData demo_hub)))
       = [''weline'', ''nsline'', ''ccline'', ''mtline'']\<close>
proof -
  have a: "four_keys demo_hub"
    by (simp add: four_keys_def table_keys_def demo_hub_def init_hub_def line_ids_def)
  show ?thesis
    using tables_keep_four_keys[of demo_env demo_hub 7 \<open>''{"ccline": null}''\<close>] a
    by (simp add: four_keys_def table_keys_def line_ids_def)
qed

section \<open>Liveness\<close>

text \<open>
  C9. For each of the four channels the report marks the channel online exactly when
  \<open>now - lastUpdate < timeout\<close>, strictly: when the difference equals the threshold
  the channel is offline.
\<close>

theorem liveness_strict_less:
  "online (getLastPlcsConnectionState ev now s) ''sensors''
     = Some (now - sensorPlcUpdateT s < gPlcTimeout ev)
   \<and> online (getLastPlcsConnectionState ev now s) ''stations''
     = Some (now - stationPlcUpdateT s < gPlcTimeout ev)
   \<and> online (getLastPlcsConnectionState ev now s) ''trains''
     = Some (now - trainPlcUpdateT s < gPlcTimeout ev)
   \<and> online (getLastRtusConnectionState ev now s) ''trains''
     = Some (now - trainRtuUpdateT s < gPlcTimeout ev)
   \<and> (now - sensorPlcUpdateT s = gPlcTimeout ev
        \<longrightarrow> online (getLastPlcsConnectionState ev now s) ''sensors'' = Some False)
   \<and> (now - stationPlcUpdateT s = gPlcTimeout ev
        \<longrightarrow> online (getLastPlcsConnectionState ev now s) ''stations'' = Some False)
   \<and> (now - trainPlcUpdateT s = gPlcTimeout ev
        \<longrightarrow> online (getLastPlcsConnectionState ev now s) ''trains'' = Some False)
   \<and> (now - trainRtuUpdateT s = gPlcTimeout ev
        \<longrightarrow> online (getLastRtusConnectionState ev now s) ''trains'' = Some False)"
  by (simp add: online_def getLastPlcsConnectionState_def getLastRtusConnectionState_def)

theorem liveness_strict_less_witness:
  "online (getLastPlcsConnectionState demo_env 5 init_hub) ''sensors'' = Some False
   \<and> online (getLastPlcsConnectionState demo_env (9 / 2) init_hub) ''sensors'' = Some True
   \<and> online (getLastRtusConnectionState demo_env 5 init_hub) ''trains'' = Some False"
proof -
  have a: "5 - sensorPlcUpdateT init_hub = gPlcTimeout demo_env"
    "5 - trainRtuUpdateT init_hub = gPlcTimeout demo_env"
    "9 / 2 - sensorPlcUpdateT init_hub < gPlcTimeout demo_env"
    by (simp_all add: init_hub_def demo_env_def)
  show ?thesis
    using liveness_strict_less[of demo_env 5 init_hub]
      liveness_strict_less[of demo_env "9 / 2" init_hub] a
    by simp
qed

section \<open>Fetch while the engine is unavailable\<close>

lemma fill_req_ok:
  assumes "set guard \<subseteq> fst ` set tbl"
  shows "\<exists>rd'. fill_req guard tbl conv keys rd = Inr rd'
           \<and> map_of rd' = (\<lambda>k. if k \<in> set keys \<and> k \<in> set guard
                                 then map_option conv (map_of tbl k) else map_of rd k)
           \<and> (set keys \<subseteq> fst ` set rd \<longrightarrow> map fst rd' = map fst rd)"
proof (induction keys arbitrary: rd)
  case Nil
  show ?case by simp
next
  case (Cons key keys)
  show ?case
  proof (cases "key \<in> set guard")
    case False
    from Cons.IH[of rd] obtain rd' where r: "fill_req guard tbl conv keys rd = Inr rd'"
      "map_of rd' = (\<lambda>k. if k \<in> set keys \<and> k \<in> set guard
                                 then map_option conv (map_of tbl k) else map_of rd k)"
      "set keys \<subseteq> fst ` set rd \<longrightarrow> map fst rd' = map fst rd" by blast
    show ?thesis using False r by (auto simp: fun_eq_iff)
  next
    case True
    then have "key \<in> fst ` set tbl" using assms by blast
    then obtain v where v: "map_of tbl key = Some v"
      by (metis map_of_eq_None_iff not_Some_eq)
    let ?rd = "AList.update key (conv v) rd"
    from Cons.IH[of ?rd] obtain rd' where r: "fill_req guard tbl conv keys ?rd = Inr rd'"
      "map_of rd' = (\<lambda>k. if k \<in> set keys \<and> k \<in> set guard
                                 then map_option conv (map_of tbl k) else map_of ?rd k)"
      "set keys \<subseteq> fst ` set ?rd \<longrightarrow> map fst rd' = map fst ?rd" by blast
    have a: "fill_req guard tbl conv (key # keys) rd = Inr rd'"
      using True v r(1) by simp
    have b: "map_of rd' = (\<lambda>k. if k \<in> set (key # keys) \<and> k \<in> set guard
                                 then map_option conv (map_of tbl k) else map_of rd k)"
      using r(2) True v by (auto simp: fun_eq_iff update_conv')
    have c: "set (key # keys) \<subseteq> fst ` set rd \<longrightarrow> map fst rd' = map fst rd"
    proof
      assume s: "set (key # keys) \<subseteq> fst ` set rd"
      then have k: "map fst ?rd = map fst rd" by (simp add: update_keys)
      then have "fst ` set ?rd = fst ` set rd" by (metis list.set_map)
      with s r(3) k show "map fst rd' = map fst rd" by simp
    qed
    from a b c show ?thesis by blast
  qed
qed

lemma fill_reply_cached:
  assumes "set guard \<subseteq> fst ` set tbl" "set guard = set line_ids"
  shows "\<exists>rd'. fill_reply ev (PDict rd) guard tbl conv = json_dumps ev (PDict rd')
           \<and> cached_reply tbl conv rd rd'"
proof -
  from fill_req_ok[OF assms(1), of conv "map fst rd" rd]
  obtain rd' where r: "fill_req guard tbl conv (map fst rd) rd = Inr rd'"
      "map_of rd' = (\<lambda>k. if k \<in> set (map fst rd) \<and> k \<in> set guard
                                 then map_option conv (map_of tbl k) else map_of rd k)"
      "map fst rd' = map fst rd" by auto
  have "cached_reply tbl conv rd rd'"
    unfolding cached_reply_def using r(2,3) assms(2) by simp
  then show ?thesis using r(1) by (auto simp: fill_reply_def)
qed

text \<open>
  C3, as amended. While the engine is unavailable, a fetch on any of the four channels
  whose body is a JSON object leaves every snapshot table unchanged and returns, for
  each requested line key, the cached value (possibly \<^verbatim>\<open>None\<close>); the only change of
  state is the channel's liveness timestamp, which is set to the time of the fetch.
\<close>

theorem fetch_without_engine:
  assumes "iMapMgr s = None" "four_keys s" "json_loads ev body = Some (PDict rd)"
  shows "(\<exists>rd'. fetchSensorInfo ev now body s
             = (json_dumps ev (PDict rd'), s\<lparr>sensorPlcUpdateT := now\<rparr>)
           \<and> cached_reply (sensorsDict s) sens_val rd rd')
       \<and> (\<exists>rd'. fetchStationInfo ev now body s
             = (json_dumps ev (PDict rd'), s\<lparr>stationPlcUpdateT := now\<rparr>)
           \<and> cached_reply (stationsDict s) sens_val rd rd')
       \<and> (\<exists>rd'. fetchTrainPwrInfo ev now body s
             = (json_dumps ev (PDict rd'), s\<lparr>trainPlcUpdateT := now\<rparr>)
           \<and> cached_reply (trainsDict s) sens_val rd rd')
       \<and> (\<exists>rd'. fetchTrainSensInfo ev now body s
             = (json_dumps ev (PDict rd'), s\<lparr>trainRtuUpdateT := now\<rparr>)
           \<and> cached_reply (trainsRtuDict s) rtu_val rd rd')"
proof -
  have k: "map fst (sensorsDict s) = line_ids" "map fst (stationsDict s) = line_ids"
      "map fst (trainsDict s) = line_ids" "map fst (trainsRtuDict s) = line_ids"
    using assms(2) by (simp_all add: four_keys_def table_keys_def)
  have s: "set line_ids \<subseteq> fst ` set (sensorsDict s)" "set line_ids \<subseteq> fst ` set (stationsDict s)"
      "set line_ids \<subseteq> fst ` set (trainsDict s)" "set line_ids \<subseteq> fst ` set (trainsRtuDict s)"
    using k by (metis list.set_map order_refl)+
  have 1: "\<exists>rd'. fetchSensorInfo ev now body s
             = (json_dumps ev (PDict rd'), s\<lparr>sensorPlcUpdateT := now\<rparr>)
           \<and> cached_reply (sensorsDict s) sens_val rd rd'"
    using fill_reply_cached[OF s(1) refl, of ev rd sens_val] assms(1,3) k
    by (simp add: fetchSensorInfo_def updateSensorsData_def)
  have 2: "\<exists>rd'. fetchStationInfo ev now body s
             = (json_dumps ev (PDict rd'), s\<lparr>stationPlcUpdateT := now\<rparr>)
           \<and> cached_reply (stationsDict s) sens_val rd rd'"
    using fill_reply_cached[OF s(2) refl, of ev rd sens_val] assms(1,3) k
    by (simp add: fetchStationInfo_def updateStationsData_def)
  have 3: "\<exists>rd'. fetchTrainPwrInfo ev now body s
             = (json_dumps ev (PDict rd'), s\<lparr>trainPlcUpdateT := now\<rparr>)
           \<and> cached_reply (trainsDict s) sens_val rd rd'"
    using fill_reply_cached[OF s(3) refl, of ev rd sens_val] assms(1,3) k
    by (simp add: fetchTrainPwrInfo_def updateTrainsPwrData_def)
  have 4: "\<exists>rd'. fetchTrainSensInfo ev now body s
             = (json_dumps ev (PDict rd'), s\<lparr>trainRtuUpdateT := now\<rparr>)
           \<and> cached_reply (trainsRtuDict s) rtu_val rd rd'"
    using fill_reply_cached[OF s(4) refl, of ev rd rtu_val] assms(1,3) k
    by (simp add: fetchTrainSensInfo_def updateTrainsSenData_def)
  from 1 2 3 4 show ?thesis by blast
qed

theorem fetch_without_engine_witness:
  \<open>fetchSensorInfo demo_env 7 ''{"ccline": null}'' init_hub
     = (''{"ccline": null}'', init_hub\<lparr>sensorPlcUpdateT := 7\<rparr>)
   \<and> map_of (sensorsDict init_hub) ''ccline'' = Some None\<close>
proof -
  have a: "iMapMgr init_hub = None" by (simp add: init_hub_def)
  have b: "four_keys init_hub" by (rule four_keys_init)
  have c: \<open>json_loads demo_env ''{"ccline": null}'' = Some (PDict [(''ccline'', PNone)])\<close>
    by (simp add: demo_env_def)
  from fetch_without_engine[OF a b c, of 7]
  obtain rd' where r: \<open>fetchSensorInfo demo_env 7 ''{"ccline": null}'' init_hub
       = (json_dumps demo_env (PDict rd'), init_hub\<lparr>sensorPlcUpdateT := 7\<rparr>)\<close>
    "cached_reply (sensorsDict init_hub) sens_val [(''ccline'', PNone)] rd'" by blast
  have m: "map_of (sensorsDict init_hub) ''ccline'' = Some None" by (simp add: init_hub_def)
  have "map fst rd' = [''ccline'']" "map_of rd' ''ccline'' = Some PNone"
    using r(2) m by (simp_all add: cached_reply_def line_ids_def sens_val_def)
  then have "rd' = [(''ccline'', PNone)]"
    by (cases rd') (auto split: if_splits)
  with r(1) m show ?thesis by (simp add: demo_env_def)
qed

text \<open>
  C3 as stated fails: with no engine, a fetch on the sensor channel changes the
  channel's liveness timestamp.
\<close>

theorem fetch_stamps_liveness_counterexample:
  \<open>iMapMgr init_hub = None
   \<and> sensorPlcUpdateT (snd (fetchSensorInfo demo_env 7 ''{"ccline": null}'' init_hub))
       \<noteq> sensorPlcUpdateT init_hub\<close>
  by (simp add: fetchSensorInfo_def updateSensorsData_def fill_reply_def init_hub_def demo_env_def)

section \<open>Sensor priority resolver\<close>

lemma keys_four:
  assumes "map fst d = [k1, k2, k3, k4]"
  shows "\<exists>a b c e. d = [(k1, a), (k2, b), (k3, c), (k4, e)]"
  using assms by (auto simp: map_eq_Cons_conv)

lemma refresh_sensors:
  assumes "map fst d = line_ids"
  shows "refresh_loop (\<lambda>key. (Some (st key), None)) (map fst d) d = (refreshed st (st ''ccline''), None)"
proof -
  obtain a b c e where "d = [(''weline'', a), (''nsline'', b), (''ccline'', c), (''mtline'', e)]"
    using keys_four[OF assms[unfolded line_ids_def]] by blast
  then show ?thesis by (simp add: refreshed_def)
qed

lemma overWrite_eq:
  assumes "seq_of d key = Inr xs"
  shows "overWrite d key idxs flg = Inr (flg \<or> (\<exists>j \<in> set idxs. j < length xs \<and> xs ! j \<noteq> 0))"
  using assms by (induction idxs arbitrary: flg) auto

lemma rule_key:
  assumes "i < 16" "priorityConfig ! i = Some (key, idxs)"
  shows "key = ''nsline'' \<or> key = ''weline''"
proof -
  have "priorityConfig ! i \<in> set priorityConfig"
    using assms(1) by (intro nth_mem) (simp add: priorityConfig_def)
  then have "Some (key, idxs) \<in> set priorityConfig" using assms(2) by simp
  then show ?thesis by (auto simp: priorityConfig_def)
qed

lemma seq_of_refreshed:
  "seq_of (refreshed st cc) ''ccline'' = Inr cc"
  "seq_of (refreshed st cc) ''nsline'' = Inr (st ''nsline'')"
  "seq_of (refreshed st cc) ''weline'' = Inr (st ''weline'')"
  by (simp_all add: seq_of_def refreshed_def)

lemma update_refreshed:
  "AList.update ''ccline'' (Some cc') (refreshed st cc) = refreshed st cc'"
  by (simp add: refreshed_def)

lemma length_priorityConfig: "length priorityConfig = 16"
  by (simp add: priorityConfig_def)

lemma priority_loop_step:
  "priority_loop (i # is) (refreshed st cc) = priority_loop is (refreshed st (clear_at st i cc))"
proof (cases "i < 16")
  case False
  then have "clear_at st i cc = cc" by (simp add: clear_at_def rule_fires_def)
  with False show ?thesis
    by (simp add: seq_of_refreshed length_priorityConfig)
next
  case True
  show ?thesis
  proof (cases "priorityConfig ! i")
    case None
    then have "clear_at st i cc = cc" by (simp add: clear_at_def rule_fires_def)
    with True None show ?thesis
      by (simp add: seq_of_refreshed length_priorityConfig)
  next
    case (Some r)
    obtain key idxs where r: "r = (key, idxs)" by (cases r)
    define F where "F = (\<exists>j \<in> set idxs. j < length (st key) \<and> st key ! j \<noteq> 0)"
    have k: "key = ''nsline'' \<or> key = ''weline''"
      using rule_key[OF True] Some r by simp
    then have sq: "seq_of (refreshed st cc) key = Inr (st key)"
      by (auto simp: seq_of_refreshed)
    have ow: "overWrite (refreshed st cc) key idxs False = Inr F"
      using overWrite_eq[OF sq, of idxs False] by (simp add: F_def)
    have rf: "rule_fires st i = F"
      using True Some r by (simp add: rule_fires_def F_def)
    have step: "priority_loop (i # is) (refreshed st cc)
        = (if cc ! i \<noteq> 0 \<and> F then priority_loop is (refreshed st (cc[i := 0]))
           else priority_loop is (refreshed st cc))"
      using True Some r ow
      by (simp add: seq_of_refreshed length_priorityConfig update_refreshed)
    have ca: "clear_at st i cc = (if cc ! i \<noteq> 0 \<and> F then cc[i := 0] else cc)"
    proof (cases "cc ! i \<noteq> 0 \<and> F")
      case True
      then show ?thesis unfolding clear_at_def rf by simp
    next
      case False
      then have "(if F \<and> cc ! i \<noteq> 0 then 0 else cc ! i) = cc ! i" by auto
      then have "clear_at st i cc = cc[i := cc ! i]" unfolding clear_at_def rf by (rule arg_cong)
      then show ?thesis using False by (simp only: list_update_id if_False)
    qed
    show ?thesis unfolding step ca by simp
  qed
qed

lemma priority_loop_refreshed:
  "priority_loop is (refreshed st cc) = (refreshed st (fold (clear_at st) is cc), None)"
proof (induction "is" arbitrary: cc)
  case Nil
  show ?case by simp
next
  case (Cons i "is")
  show ?case unfolding priority_loop_step using Cons.IH by simp
qed

lemma fold_clear_at:
  assumes "distinct is"
  shows "length (fold (clear_at st) is cc) = length cc
       \<and> (\<forall>i < length cc. fold (clear_at st) is cc ! i
             = (if i \<in> set is then (if rule_fires st i \<and> cc ! i \<noteq> 0 then 0 else cc ! i) else cc ! i))"
  using assms
proof (induction "is" arbitrary: cc)
  case Nil
  show ?case by simp
next
  case (Cons a "is")
  have d: "distinct is" and a: "a \<notin> set is" using Cons.prems by auto
  have l: "length (clear_at st a cc) = length cc" by (simp add: clear_at_def)
  note ih = Cons.IH[OF d, of "clear_at st a cc"]
  show ?case
  proof (intro conjI allI impI)
    show "length (fold (clear_at st) (a # is) cc) = length cc" using ih l by simp
  next
    fix i assume i: "i < length cc"
    have n: "clear_at st a cc ! i
        = (if i = a then (if rule_fires st i \<and> cc ! i \<noteq> 0 then 0 else cc ! i) else cc ! i)"
      using i by (simp add: clear_at_def nth_list_update)
    have "fold (clear_at st) (a # is) cc ! i = fold (clear_at st) is (clear_at st a cc) ! i" by simp
    also have "\<dots> = (if i \<in> set is
        then (if rule_fires st i \<and> clear_at st a cc ! i \<noteq> 0 then 0 else clear_at st a cc ! i)
        else clear_at st a cc ! i)"
      using ih i l by simp
    also have "\<dots> = (if i \<in> set (a # is)
        then (if rule_fires st i \<and> cc ! i \<noteq> 0 then 0 else cc ! i) else cc ! i)"
      using n a by auto
    finally show "fold (clear_at st) (a # is) cc ! i
        = (if i \<in> set (a # is) then (if rule_fires st i \<and> cc ! i \<noteq> 0 then 0 else cc ! i) else cc ! i)" .
  qed
qed

lemma fold_clear_at_spec:
  "fold (clear_at st) [0..<length (st ''ccline'')] (st ''ccline'') = priority_spec st"
proof (rule nth_equalityI)
  show "length (fold (clear_at st) [0..<length (st ''ccline'')] (st ''ccline'')) = length (priority_spec st)"
    using fold_clear_at[of "[0..<length (st ''ccline'')]" st "st ''ccline''"]
    by (simp add: priority_spec_def)
next
  fix i assume "i < length (fold (clear_at st) [0..<length (st ''ccline'')] (st ''ccline''))"
  then have i: "i < length (st ''ccline'')"
    using fold_clear_at[of "[0..<length (st ''ccline'')]" st "st ''ccline''"] by simp
  then show "fold (clear_at st) [0..<length (st ''ccline'')] (st ''ccline'') ! i = priority_spec st ! i"
    using fold_clear_at[of "[0..<length (st ''ccline'')]" st "st ''ccline''"]
    by (simp add: priority_spec_def)
qed

lemma priority_spec_Nil: "st ''ccline'' = [] \<Longrightarrow> priority_spec st = []"
  by (simp add: priority_spec_def)

lemma updateSensorPriority_refreshed:
  "updateSensorPriority (refreshed st (st ''ccline'')) = (refreshed st (priority_spec st), None)"
proof (cases "st ''ccline'' = []")
  case True
  then show ?thesis
    by (simp add: updateSensorPriority_def refreshed_def priority_spec_Nil)
next
  case False
  have "map_of (refreshed st (st ''ccline'')) ''ccline'' = Some (Some (st ''ccline''))"
    by (simp add: refreshed_def)
  then show ?thesis using False
    by (simp add: updateSensorPriority_def priority_loop_refreshed fold_clear_at_spec)
qed

lemma updateSensorsData_resolved:
  assumes "iMapMgr s = Some m" "\<not> gTestMD ev" "map fst (sensorsDict s) = line_ids"
  shows "updateSensorsData ev s
       = (s\<lparr>sensorsDict := refreshed (sensorsState m) (priority_spec (sensorsState m))\<rparr>, None)"
  using assms refresh_sensors[OF assms(3), of "sensorsState m"]
  by (simp add: updateSensorsData_def updateSensorPriority_refreshed)

lemma priority_spec_nth:
  "length (priority_spec st) = length (st ''ccline'')
   \<and> (\<forall>i < length (st ''ccline'').
         priority_spec st ! i
           = (if rule_fires st i \<and> st ''ccline'' ! i \<noteq> 0 then 0 else st ''ccline'' ! i))"
  by (simp add: priority_spec_def)

lemma demo_spec: "priority_spec (sensorsState demo_mgr) = [1, 1, 1, 0, 0, 0, 0]"
  by (simp add: priority_spec_def rule_fires_def demo_mgr_def priorityConfig_def upt_rec)

text \<open>
  C6. Outside test mode, with the engine available, the refresh of the sensor table
  ends with the resolver, and a sensor fetch returns the resolved cc-line array: at
  every index \<open>i\<close> below \<open>min 16 (length cc)\<close> whose slot of the priority table has a
  rule, the value is forced to 0 when it is true and one of the rule's in-bounds indices
  is true in the named other line's array; every other value is unchanged, so the
  resolver only clears values.
\<close>

theorem priority_resolver_clears:
  assumes "iMapMgr s = Some m" "\<not> gTestMD ev" "four_keys s"
    and "json_loads ev body = Some (PDict rd)" "''ccline'' \<in> set (map fst rd)"
  shows "updateSensorsData ev s
           = (s\<lparr>sensorsDict := refreshed (sensorsState m) (priority_spec (sensorsState m))\<rparr>, None)
       \<and> (\<exists>rd'. fetchSensorInfo ev now body s
                   = (json_dumps ev (PDict rd'),
                      s\<lparr>sensorPlcUpdateT := now,
                        sensorsDict := refreshed (sensorsState m) (priority_spec (sensorsState m))\<rparr>)
                \<and> map_of rd' ''ccline''
                   = Some (sens_val (Some (priority_spec (sensorsState m)))))
       \<and> length (priority_spec (sensorsState m)) = length (sensorsState m ''ccline'')
       \<and> (\<forall>i < length (sensorsState m ''ccline'').
            priority_spec (sensorsState m) ! i
              = (if i < min 16 (length (sensorsState m ''ccline''))
                    \<and> (\<exists>key idxs. priorityConfig ! i = Some (key, idxs)
                          \<and> (\<exists>j \<in> set idxs. j < length (sensorsState m key)
                                \<and> sensorsState m key ! j \<noteq> 0))
                    \<and> sensorsState m ''ccline'' ! i \<noteq> 0
                 then 0 else sensorsState m ''ccline'' ! i))"
proof -
  let ?st = "sensorsState m"
  let ?d = "refreshed ?st (priority_spec ?st)"
  have k: "map fst (sensorsDict s) = line_ids"
    using assms(3) by (simp add: four_keys_def table_keys_def)
  have u: "updateSensorsData ev s' = (s'\<lparr>sensorsDict := ?d\<rparr>, None)"
    if "iMapMgr s' = Some m" "map fst (sensorsDict s') = line_ids" for s'
    using updateSensorsData_resolved[OF that(1) assms(2) that(2)] .
  have u1: "updateSensorsData ev s = (s\<lparr>sensorsDict := ?d\<rparr>, None)"
    using u[of s] assms(1) k by simp
  have u2: "updateSensorsData ev (s\<lparr>sensorPlcUpdateT := now\<rparr>)
      = (s\<lparr>sensorPlcUpdateT := now, sensorsDict := ?d\<rparr>, None)"
    using u[of "s\<lparr>sensorPlcUpdateT := now\<rparr>"] assms(1) k by simp
  have g: "set (map fst ?d) \<subseteq> fst ` set ?d" by simp
  from fill_req_ok[OF g, of sens_val "map fst rd" rd]
  obtain rd' where r: "fill_req (map fst ?d) ?d sens_val (map fst rd) rd = Inr rd'"
      "map_of rd' = (\<lambda>k. if k \<in> set (map fst rd) \<and> k \<in> set (map fst ?d)
                           then map_option sens_val (map_of ?d k) else map_of rd k)" by blast
  have c: "map_of rd' ''ccline'' = Some (sens_val (Some (priority_spec ?st)))"
    using r(2) assms(5) by (simp add: refreshed_def)
  have f: "fetchSensorInfo ev now body s
      = (json_dumps ev (PDict rd'), s\<lparr>sensorPlcUpdateT := now, sensorsDict := ?d\<rparr>)"
    using assms(4) u2 r(1) by (simp add: fetchSensorInfo_def fill_reply_def)
  have n: "\<forall>i < length (?st ''ccline'').
            priority_spec ?st ! i
              = (if i < min 16 (length (?st ''ccline''))
                    \<and> (\<exists>key idxs. priorityConfig ! i = Some (key, idxs)
                          \<and> (\<exists>j \<in> set idxs. j < length (?st key) \<and> ?st key ! j \<noteq> 0))
                    \<and> ?st ''ccline'' ! i \<noteq> 0
                 then 0 else ?st ''ccline'' ! i)"
  proof (intro allI impI)
    fix i assume i: "i < length (?st ''ccline'')"
    have "rule_fires ?st i = (i < min 16 (length (?st ''ccline''))
                    \<and> (\<exists>key idxs. priorityConfig ! i = Some (key, idxs)
                          \<and> (\<exists>j \<in> set idxs. j < length (?st key) \<and> ?st key ! j \<noteq> 0)))"
      using i by (auto simp: rule_fires_def split: option.splits)
    then show "priority_spec ?st ! i
              = (if i < min 16 (length (?st ''ccline''))
                    \<and> (\<exists>key idxs. priorityConfig ! i = Some (key, idxs)
                          \<and> (\<exists>j \<in> set idxs. j < length (?st key) \<and> ?st key ! j \<noteq> 0))
                    \<and> ?st ''ccline'' ! i \<noteq> 0
                 then 0 else ?st ''ccline'' ! i)"
      using priority_spec_nth[of ?st] i by simp
  qed
  from u1 f c n priority_spec_nth[of ?st] show ?thesis by blast
qed

theorem priority_resolver_clears_witness:
  \<open>sensorsState demo_mgr ''ccline'' = [1, 1, 1, 0, 1, 0, 1]
   \<and> sensorsState demo_mgr ''nsline'' = [0, 0, 1]
   \<and> map_of (sensorsDict (snd (fetchSensorInfo demo_env 7 ''{"ccline": null}'' demo_hub))) ''ccline''
       = Some (Some [1, 1, 1, 0, 0, 0, 0])\<close>
proof -
  have a: "iMapMgr demo_hub = Some demo_mgr" by (simp add: demo_hub_def)
  have b: "\<not> gTestMD demo_env" by (simp add: demo_env_def)
  have c: "four_keys demo_hub"
    by (simp add: four_keys_def table_keys_def demo_hub_def init_hub_def line_ids_def)
  have d: \<open>json_loads demo_env ''{"ccline": null}'' = Some (PDict [(''ccline'', PNone)])\<close>
    by (simp add: demo_env_def)
  have e: "''ccline'' \<in> set (map fst [(''ccline'', PNone)])" by simp
  show ?thesis
    using priority_resolver_clears[OF a b c d e, of 7]
    by (auto simp: demo_spec refreshed_def) (simp_all add: demo_mgr_def)
qed

section \<open>Push path of the power link\<close>

lemma parse_post_powerLink:
  assumes "m = MStr (''POST;powerLink;'' @ body)
         \<or> (m = MBytes b \<and> b \<noteq> [] \<and> utf8_decode ev b = Some (''POST;powerLink;'' @ body))"
  shows "parseIncomeMsg ev m = Inr (''POST'', ''powerLink'', body) \<and> m \<noteq> MBytes []"
proof -
  have "py_split (CHR '';'') 2 (''POST;powerLink;'' @ body) = [''POST'', ''powerLink'', body]"
    by (simp add: numeral_2_eq_2)
  then show ?thesis using assms
    by (auto simp: parseIncomeMsg_def py_strip_def py_isspace_def)
qed

text \<open>
  C4. A \<^verbatim>\<open>POST;powerLink\<close> request whose body carries the railway flag applies the
  fan-out and records the flag when the flag differs from the last applied one or none
  was applied yet, and changes nothing when the flag equals the last applied one; so of
  two consecutive requests with the same flag, starting with no flag applied, the first
  applies the fan-out and the second leaves the state, the trains included, as it is.
\<close>

theorem push_path_edge_triggered:
  assumes m: "m = MStr (''POST;powerLink;'' @ body)
         \<or> (m = MBytes b \<and> b \<noteq> [] \<and> utf8_decode ev b = Some (''POST;powerLink;'' @ body))"
    and body: "body \<noteq> []" "json_loads ev body = Some (PDict d)"
      "truthy (dict_get d ''railway'' (PBool True)) = railway_on"
  shows "(last_powerlink_railway s \<noteq> Some railway_on \<longrightarrow>
            msgHandler ev now m s
              = Inr (Some (''REP;powerLink;'' @ json_dumps ev (PDict [(''result'', PStr ''success'')])),
                     (applyRailwayPowerLink railway_on s)\<lparr>last_powerlink_railway := Some railway_on\<rparr>))
       \<and> (last_powerlink_railway s = Some railway_on \<longrightarrow>
            msgHandler ev now m s
              = Inr (Some (''REP;powerLink;'' @ json_dumps ev (PDict [(''result'', PStr ''success'')])), s))
       \<and> (last_powerlink_railway s = None \<longrightarrow>
            (case msgHandler ev now m s of
               Inl e \<Rightarrow> False
             | Inr (r, s1) \<Rightarrow>
                 s1 = (applyRailwayPowerLink railway_on s)\<lparr>last_powerlink_railway := Some railway_on\<rparr>
                 \<and> msgHandler ev now' m s1 = Inr (r, s1)))"
proof -
  have p: "parseIncomeMsg ev m = Inr (''POST'', ''powerLink'', body)" and ne: "m \<noteq> MBytes []"
    using parse_post_powerLink[OF m] by simp_all
  have h: "msgHandler ev t m s' = Inr (rep ''powerLink'' (handlePowerLink ev body s'))" for t s'
    using p ne by (simp add: msgHandler_def)
  have apl: "last_powerlink_railway (applyRailwayPowerLink railway_on s) = last_powerlink_railway s"
    by (simp add: applyRailwayPowerLink_def split: option.splits)
  have 1: "last_powerlink_railway s' \<noteq> Some railway_on \<Longrightarrow>
      handlePowerLink ev body s' = (success_body ev,
         (applyRailwayPowerLink railway_on s')\<lparr>last_powerlink_railway := Some railway_on\<rparr>)" for s'
    using body by (auto simp: handlePowerLink_def Let_def)
  have 2: "last_powerlink_railway s' = Some railway_on \<Longrightarrow>
      handlePowerLink ev body s' = (success_body ev, s')" for s'
    using body by (auto simp: handlePowerLink_def Let_def)
  show ?thesis
    by (auto simp: h 1 2 rep_def success_body_def)
qed

theorem push_path_edge_triggered_witness:
  \<open>stops_received demo_hub ''weline'' = [[]]
   \<and> (case msgHandler demo_env 7 (MStr ''POST;powerLink;{"railway": 0}'') demo_hub of
        Inl e \<Rightarrow> False
      | Inr (r, s1) \<Rightarrow>
          stops_received s1 ''weline'' = [[True]]
          \<and> msgHandler demo_env 8 (MStr ''POST;powerLink;{"railway": 0}'') s1 = Inr (r, s1))\<close>
proof -
  have a: \<open>MStr ''POST;powerLink;{"railway": 0}'' = MStr (''POST;powerLink;'' @ ''{"railway": 0}'')
     \<or> (MStr ''POST;powerLink;{"railway": 0}'' = MBytes [] \<and> [] \<noteq> []
         \<and> utf8_decode demo_env [] = Some (''POST;powerLink;'' @ ''{"railway": 0}''))\<close> by simp
  have b: \<open>''{"railway": 0}'' \<noteq> []\<close> by simp
  have c: \<open>json_loads demo_env ''{"railway": 0}'' = Some (PDict [(''railway'', PNum 0)])\<close>
    by (simp add: demo_env_def)
  have d: "truthy (dict_get [(''railway'', PNum 0)] ''railway'' (PBool True)) = False"
    by (simp add: dict_get_def)
  have e: "last_powerlink_railway demo_hub = None" by (simp add: demo_hub_def init_hub_def)
  have f: "stops_received ((applyRailwayPowerLink False demo_hub)\<lparr>last_powerlink_railway := Some False\<rparr>) ''weline'' = [[True]]"
    by (simp add: demo_hub_def init_hub_def demo_mgr_def applyRailwayPowerLink_def line_ids_def
        emg_line_def stops_received_def good_train_def setEmgStop_def)
  have g: "stops_received demo_hub ''weline'' = [[]]"
    by (simp add: demo_hub_def init_hub_def demo_mgr_def stops_received_def good_train_def)
  show ?thesis
    using push_path_edge_triggered[OF a b c d, of demo_hub 7 8] e f g
    by (auto split: sum.splits)
qed

section \<open>Signal requests and junction avoidance\<close>

lemma parse_post_signals:
  assumes "m = MStr (''POST;signals;'' @ body)
         \<or> (m = MBytes b \<and> b \<noteq> [] \<and> utf8_decode ev b = Some (''POST;signals;'' @ body))"
  shows "parseIncomeMsg ev m = Inr (''POST'', ''signals'', body) \<and> m \<noteq> MBytes []"
proof -
  have "py_split (CHR '';'') 2 (''POST;signals;'' @ body) = [''POST'', ''signals'', body]"
    by (simp add: numeral_2_eq_2)
  then show ?thesis using assms
    by (auto simp: parseIncomeMsg_def py_strip_def py_isspace_def)
qed

lemma fold_setSingals: "fold setSingals rd m = m\<lparr>signalCalls := signalCalls m @ rd\<rparr>"
  by (induction rd arbitrary: m) (simp_all add: setSingals_def)

text \<open>
  C8. With the engine available, a \<^verbatim>\<open>POST;signals\<close> request whose body is a JSON
  object calls the engine's signal setter once for each key/value pair, in order, and
  reports success when the junction-avoidance flag is inactive; when the flag is active
  it makes no call, leaves the engine as it is, and still reports success.
\<close>

theorem post_signals_junction_avoidance:
  assumes m: "m = MStr (''POST;signals;'' @ body)
         \<or> (m = MBytes b \<and> b \<noteq> [] \<and> utf8_decode ev b = Some (''POST;signals;'' @ body))"
    and eng: "iMapMgr s = Some mg"
    and body: "json_loads ev body = Some (PDict rd)"
  shows "(\<not> gJuncAvoid ev \<longrightarrow>
            msgHandler ev now m s
              = Inr (Some (''REP;signals;'' @ json_dumps ev (PDict [(''result'', PStr ''success'')])),
                     s\<lparr>iMapMgr := Some (mg\<lparr>signalCalls := signalCalls mg @ rd\<rparr>)\<rparr>))
       \<and> (gJuncAvoid ev \<longrightarrow>
            msgHandler ev now m s
              = Inr (Some (''REP;signals;'' @ json_dumps ev (PDict [(''result'', PStr ''success'')])), s))"
proof -
  have p: "parseIncomeMsg ev m = Inr (''POST'', ''signals'', body)" and ne: "m \<noteq> MBytes []"
    using parse_post_signals[OF m] by simp_all
  have h: "msgHandler ev now m s = Inr (rep ''signals'' (setSignals ev body s))"
    using p ne by (simp add: msgHandler_def)
  show ?thesis
    using eng body by (simp add: h rep_def setSignals_def fold_setSingals success_body_def)
qed

theorem post_signals_junction_avoidance_witness:
  \<open>msgHandler demo_env 7 (MStr ''POST;signals;{"S1": 1}'') demo_hub
     = Inr (Some ''REP;signals;{"result": "success"}'',
            demo_hub\<lparr>iMapMgr := Some (demo_mgr\<lparr>signalCalls := [(''S1'', PNum 1)]\<rparr>)\<rparr>)
   \<and> msgHandler (demo_env\<lparr>gJuncAvoid := True\<rparr>) 7 (MStr ''POST;signals;{"S1": 1}'') demo_hub
     = Inr (Some ''REP;signals;{"result": "success"}'', demo_hub)\<close>
proof -
  have a: \<open>MStr ''POST;signals;{"S1": 1}'' = MStr (''POST;signals;'' @ ''{"S1": 1}'')
     \<or> (MStr ''POST;signals;{"S1": 1}'' = MBytes [] \<and> [] \<noteq> []
         \<and> utf8_decode ev [] = Some (''POST;signals;'' @ ''{"S1": 1}''))\<close> for ev by simp
  have b: "iMapMgr demo_hub = Some demo_mgr" by (simp add: demo_hub_def)
  have c: \<open>json_loads demo_env ''{"S1": 1}'' = Some (PDict [(''S1'', PNum 1)])\<close>
    \<open>json_loads (demo_env\<lparr>gJuncAvoid := True\<rparr>) ''{"S1": 1}'' = Some (PDict [(''S1'', PNum 1)])\<close>
    by (simp_all add: demo_env_def)
  have d: "signalCalls demo_mgr = []" by (simp add: demo_mgr_def)
  have e: \<open>json_dumps demo_env (PDict [(''result'', PStr ''success'')]) = ''{"result": "success"}''\<close>
    by (simp add: demo_env_def)
  have f: "\<not> gJuncAvoid demo_env" by (simp add: demo_env_def)
  show ?thesis
    using post_signals_junction_avoidance[OF a b c(1), of 7]
      post_signals_junction_avoidance[OF a b c(2), of 7] d e f
    by simp
qed

section \<open>Poll path of the power link\<close>

lemma watcher_iter_poll_reply:
  "watcher_iter demo_env (poll_reply r) ws = watch_reading r ws"
  by (simp add: watcher_iter_def poll_reply_def parseIncomeMsg_def demo_env_def
      numeral_2_eq_2 py_strip_def py_isspace_def dict_get_def)

lemma watcher_run_poll_replies:
  "watcher_run demo_env (map poll_reply rs) ws = fold watch_reading rs ws"
  by (induction rs arbitrary: ws) (simp_all add: watcher_run_def watcher_iter_poll_reply)

lemma watcher_ignores_false_before_true:
  assumes "\<not> seen_true w" "list_all Not rs"
  shows "snd (fold watch_reading rs (w, s)) = s"
  using assms by (induction rs arbitrary: w) (simp_all add: watch_reading_def)

lemma watcher_debounce_examples:
  "stops_received (snd (watcher_run demo_env (map poll_reply [True, False, False])
      (init_watcher, demo_hub))) ''weline'' = [[]]
   \<and> stops_received (snd (watcher_run demo_env (map poll_reply [True, False, False, False])
      (init_watcher, demo_hub))) ''weline'' = [[True]]
   \<and> stops_received (snd (watcher_run demo_env (map poll_reply [False, False, False])
      (init_watcher, demo_hub))) ''weline'' = [[]]"
  unfolding watcher_run_poll_replies by (simp add: demo_simps)

text \<open>
  C1. The watcher keeps counting after the third consecutive false reading and tests
  \<open>false_count \<ge> 3\<close> on every false reading, so a fourth consecutive false reading
  applies the emergency stop a second time: the train has received two stop calls.
\<close>

theorem watcher_trips_again:
  "stops_received (snd (watcher_run demo_env
       (map poll_reply [True, False, False, False, False]) (init_watcher, demo_hub))) ''weline''
     = [[True, True]]"
  unfolding watcher_run_poll_replies by (simp add: demo_simps)

section \<open>Failures during the fan-out\<close>

lemma emg_loop_all_reachable:
  "list_all (\<lambda>t. \<not> emgStopRaises t) ts \<Longrightarrow> emg_loop flag ts = map (setEmgStop flag) ts"
  by (induction ts) simp_all

lemma fold_emg_line:
  "distinct ls \<Longrightarrow>
   trainsOn (fold (emg_line flag) ls m) l
     = (if l \<in> set ls then map_option (emg_loop flag) (trainsOn m l) else trainsOn m l)"
proof (induction ls arbitrary: m)
  case Nil
  show ?case by simp
next
  case (Cons a ls)
  have "trainsOn (emg_line flag a m) l
      = (if l = a then map_option (emg_loop flag) (trainsOn m l) else trainsOn m l)"
    by (simp add: emg_line_def split: option.splits)
  with Cons show ?case by auto
qed

lemma fanout_reaches_lines_without_failure:
  assumes "iMapMgr s = Some m" "l \<in> set line_ids" "trainsOn m l = Some ts"
    "list_all (\<lambda>t. \<not> emgStopRaises t) ts"
  shows "stops_received (applyRailwayPowerLink False s) l = map (\<lambda>t. emgStopCalls t @ [True]) ts"
proof -
  have d: "distinct line_ids" by (simp add: line_ids_def)
  show ?thesis
    using assms fold_emg_line[OF d, of True m l] emg_loop_all_reachable[OF assms(4), of True]
    by (simp add: applyRailwayPowerLink_def stops_received_def setEmgStop_def comp_def)
qed

text \<open>
  C2. The \<^verbatim>\<open>try\<close> of the fan-out encloses the loop over the trains of a line, so a
  train whose \<^verbatim>\<open>setEmgStop\<close> raises ends the loop of its line: the train after it on
  the west-east line receives no stop, while the train of the next line does.
\<close>

theorem fanout_stops_at_failing_train:
  "stops_received blocked_hub ''weline'' = [[], []]
   \<and> stops_received (applyRailwayPowerLink False blocked_hub) ''weline'' = [[], []]
   \<and> stops_received (applyRailwayPowerLink False blocked_hub) ''nsline'' = [[True]]"
  by (simp add: blocked_hub_def demo_simps)

section \<open>Telemetry totals\<close>

lemma telemetry_example:
  "collectMetroTotalsPayloads demo_env (7 / 2) (telemetry_hub (PNum 3) PNone)
   = Inr [\<lparr>ts_ms = 3500, line_id = ''weline'', bus_v = 10, total_i = 5, train_count = 2\<rparr>,
          \<lparr>ts_ms = 3500, line_id = ''nsline'', bus_v = 0, total_i = 0, train_count = 0\<rparr>,
          \<lparr>ts_ms = 3500, line_id = ''ccline'', bus_v = 0, total_i = 0, train_count = 0\<rparr>,
          \<lparr>ts_ms = 3500, line_id = ''mtline'', bus_v = 0, total_i = 0, train_count = 0\<rparr>]"
  by (simp add: collectMetroTotalsPayloads_def telemetry_hub_def demo_hub_def init_hub_def
      demo_mgr_def line_ids_def good_train_def dict_get_def py_int_def Let_def)

lemma telemetry_unparseable_voltage_skipped:
  "collectMetroTotalsPayloads demo_env (7 / 2) (telemetry_hub (PNum 3) (PStr ''n/a''))
   = collectMetroTotalsPayloads demo_env (7 / 2) (telemetry_hub (PNum 3) PNone)"
  by (simp add: collectMetroTotalsPayloads_def telemetry_hub_def demo_hub_def init_hub_def
      demo_mgr_def line_ids_def good_train_def dict_get_def py_int_def Let_def demo_env_def)

text \<open>
  C7. The conversion of a train's current is not guarded: a current that \<^verbatim>\<open>float\<close>
  rejects raises out of the aggregate, and no record is produced for any line.
\<close>

theorem telemetry_unparseable_current_aborts:
  "str_to_float demo_env ''n/a'' = None
   \<and> collectMetroTotalsPayloads demo_env (7 / 2) (telemetry_hub (PStr ''n/a'') (PNum 10))
       = Inl ValueError"
  by (simp add: collectMetroTotalsPayloads_def telemetry_hub_def demo_hub_def init_hub_def
      demo_mgr_def line_ids_def good_train_def dict_get_def py_int_def Let_def demo_env_def)

end
